theory Spec2Isabelle
  imports Complex_Main "HOL-Library.AList"
begin

section \<open>Strings, exceptions and JSON values\<close>

text \<open>
  A Python \<open>str\<close> is a sequence of Unicode code points, so it is modelled as a list of
  natural numbers. ASCII literals are written through \<open>ascii\<close>; the Chinese literals of
  the source are given by their code points, with the source line they come from.
\<close>

type_synonym pystr = "nat list"

definition ascii :: "string \<Rightarrow> pystr" where
  "ascii s = map of_char s"

text \<open>
  The exception classes the services raise or catch. \<open>FileNotFoundError\<close> is a subclass
  of \<open>OSError\<close> (which \<open>IOError\<close> names in Python 3) and \<open>JSONDecodeError\<close> a
  subclass of \<open>ValueError\<close>; the other classes are unrelated to each other.
\<close>

datatype exc_class =
    ValueError | RuntimeError | OSError | FileNotFoundError | TypeError
  | AttributeError | OverflowError | JSONDecodeError | APIError

datatype pyexc = Exc exc_class pystr

fun exc_cls :: "pyexc \<Rightarrow> exc_class" where
  "exc_cls (Exc c m) = c"

fun str_exc :: "pyexc \<Rightarrow> pystr" where
  "str_exc (Exc c m) = m"

fun subclass_of :: "exc_class \<Rightarrow> exc_class \<Rightarrow> bool" where
  "subclass_of FileNotFoundError OSError = True"
| "subclass_of JSONDecodeError ValueError = True"
| "subclass_of c d = (c = d)"

text \<open>\<open>except (A, B) as e\<close> handles \<open>e\<close> iff its class is a subclass of \<open>A\<close> or \<open>B\<close>.\<close>

definition caught_by :: "exc_class list \<Rightarrow> pyexc \<Rightarrow> bool" where
  "caught_by handlers e = list_ex (subclass_of (exc_cls e)) handlers"

text \<open>
  A Python \<open>float\<close>: a finite value, an infinity or NaN. The services only compare
  floats and never compute with them, so a finite double is represented by the real
  number it denotes.
\<close>

datatype pyfloat = Finite real | PosInf | NegInf | NaN

text \<open>What \<open>json.loads\<close> returns; a \<open>dict\<close> keeps its keys in insertion order.\<close>

datatype json =
    JNull | JBool bool | JInt int | JFloat pyfloat | JStr pystr
  | JArr "json list" | JObj "(pystr \<times> json) list"

type_synonym pydict = "(pystr \<times> json) list"

definition dict_get :: "pydict \<Rightarrow> pystr \<Rightarrow> json \<Rightarrow> json" where
  "dict_get d k dflt = (case map_of d k of None \<Rightarrow> dflt | Some v \<Rightarrow> v)"

definition setdefault :: "pystr \<Rightarrow> json \<Rightarrow> pydict \<Rightarrow> pydict" where
  "setdefault k v d = (case map_of d k of None \<Rightarrow> d @ [(k, v)] | Some _ \<Rightarrow> d)"

definition dict_set :: "pystr \<Rightarrow> json \<Rightarrow> pydict \<Rightarrow> pydict" where
  "dict_set k v d = AList.update k v d"

definition k_summary :: pystr where "k_summary = ascii ''summary''"
definition k_accuracy_score :: pystr where "k_accuracy_score = ascii ''accuracy_score''"
definition k_semantic_similarity :: pystr where
  "k_semantic_similarity = ascii ''semantic_similarity''"
definition k_error_analysis :: pystr where "k_error_analysis = ascii ''error_analysis''"
definition k_key_differences :: pystr where "k_key_differences = ascii ''key_differences''"
definition k_suggestions :: pystr where "k_suggestions = ascii ''suggestions''"
definition k_reasoning :: pystr where "k_reasoning = ascii ''reasoning''"
definition k_success :: pystr where "k_success = ascii ''success''"
definition k_error :: pystr where "k_error = ascii ''error''"
definition k_substitutions :: pystr where "k_substitutions = ascii ''substitutions''"
definition k_deletions :: pystr where "k_deletions = ascii ''deletions''"
definition k_insertions :: pystr where "k_insertions = ascii ''insertions''"
definition k_total_errors :: pystr where "k_total_errors = ascii ''total_errors''"

section \<open>config.py\<close>

record evaluation_config =
  text_normalization :: bool
  punctuation_ignore :: bool
  case_sensitive :: bool
  min_similarity_threshold :: real
  high_accuracy_threshold :: real
  detailed_error_analysis :: bool
  include_suggestions :: bool

text \<open>\<open>EVALUATION_CONFIG\<close> when no environment variable overrides a default.\<close>

definition default_config :: evaluation_config where
  "default_config = \<lparr> text_normalization = True, punctuation_ignore = True,
     case_sensitive = False, min_similarity_threshold = 60, high_accuracy_threshold = 90,
     detailed_error_analysis = True, include_suggestions = True \<rparr>"


record thresholds =
  excellent :: real
  good :: real
  fair :: real
  poor :: real

definition get_evaluation_thresholds :: "evaluation_config \<Rightarrow> thresholds" where
  "get_evaluation_thresholds cfg =
     \<lparr> excellent = high_accuracy_threshold cfg,
       good = max 75 (min_similarity_threshold cfg),
       fair = min_similarity_threshold cfg,
       poor = 0 \<rparr>"

section \<open>evaluation.py: derived metrics\<close>

text \<open>Line 159, 161, 163, 165 and 139 of evaluation.py: the five accuracy labels.\<close>

definition level_excellent :: pystr where "level_excellent = [20778, 31168]"
definition level_good :: pystr where "level_good = [33391, 22909]"
definition level_fair :: pystr where "level_fair = [26222, 36890]"
definition level_needs_improvement :: pystr where
  "level_needs_improvement = [38656, 35201, 25913, 36914]"
definition level_failed :: pystr where "level_failed = [35413, 20272, 22833, 25943]"

record evaluation_metrics =
  m_accuracy_score :: json
  m_semantic_similarity :: json
  accuracy_level :: pystr
  m_confidence :: real
  processing_status :: pystr

text \<open>
  \<open>x >= t\<close> for a value read from the comparison dict and a float threshold. Numbers
  compare by value, every comparison with NaN is false, a bool counts as 0 or 1, and any
  other operand raises \<open>TypeError\<close>.
\<close>

fun float_ge :: "pyfloat \<Rightarrow> real \<Rightarrow> bool" where
  "float_ge (Finite r) t = (t \<le> r)"
| "float_ge PosInf t = True"
| "float_ge NegInf t = False"
| "float_ge NaN t = False"

fun py_ge :: "json \<Rightarrow> real \<Rightarrow> pyexc + bool" where
  "py_ge (JInt i) t = Inr (t \<le> of_int i)"
| "py_ge (JFloat f) t = Inr (float_ge f t)"
| "py_ge (JBool b) t = Inr (t \<le> (if b then 1 else 0))"
| "py_ge v t = Inl (Exc TypeError (ascii ''>= not supported''))"

definition calculate_evaluation_metrics ::
    "evaluation_config \<Rightarrow> pydict \<Rightarrow> real \<Rightarrow> pyexc + evaluation_metrics" where
  "calculate_evaluation_metrics cfg comparison confidence =
     (let accuracy_score = dict_get comparison k_accuracy_score (JInt 0);
          semantic_similarity = dict_get comparison k_semantic_similarity (JInt 0);
          thresholds = get_evaluation_thresholds cfg;
          metrics = (\<lambda>level. \<lparr> m_accuracy_score = accuracy_score,
                       m_semantic_similarity = semantic_similarity,
                       accuracy_level = level,
                       m_confidence = confidence,
                       processing_status = ascii ''completed'' \<rparr>)
      in case py_ge accuracy_score (excellent thresholds) of
           Inl e \<Rightarrow> Inl e
         | Inr True \<Rightarrow> Inr (metrics level_excellent)
         | Inr False \<Rightarrow>
        (case py_ge accuracy_score (good thresholds) of
           Inl e \<Rightarrow> Inl e
         | Inr True \<Rightarrow> Inr (metrics level_good)
         | Inr False \<Rightarrow>
        (case py_ge accuracy_score (fair thresholds) of
           Inl e \<Rightarrow> Inl e
         | Inr True \<Rightarrow> Inr (metrics level_fair)
         | Inr False \<Rightarrow> Inr (metrics level_needs_improvement))))"



section \<open>String built-ins\<close>

text \<open>
  The code points for which \<open>str.isspace\<close> holds; \<open>str.strip()\<close> without arguments
  and the pattern \<open>\s\<close> of \<open>re\<close> on a \<open>str\<close> use the same set.
\<close>

definition py_isspace :: "nat \<Rightarrow> bool" where
  "py_isspace c \<longleftrightarrow> c \<in> set [9, 10, 11, 12, 13, 28, 29, 30, 31, 32, 133, 160, 5760,
     8192, 8193, 8194, 8195, 8196, 8197, 8198, 8199, 8200, 8201, 8202,
     8232, 8233, 8239, 8287, 12288]"

definition lstrip :: "pystr \<Rightarrow> pystr" where
  "lstrip t = dropWhile py_isspace t"

definition rstrip :: "pystr \<Rightarrow> pystr" where
  "rstrip t = rev (dropWhile py_isspace (rev t))"

definition strip :: "pystr \<Rightarrow> pystr" where
  "strip t = rstrip (lstrip t)"

definition startswith :: "pystr \<Rightarrow> pystr \<Rightarrow> bool" where
  "startswith t p \<longleftrightarrow> take (length p) t = p"

definition endswith :: "pystr \<Rightarrow> pystr \<Rightarrow> bool" where
  "endswith t p \<longleftrightarrow> length p \<le> length t \<and> drop (length t - length p) t = p"

text \<open>\<open>p in t\<close> for two strings: \<open>p\<close> occurs in \<open>t\<close> as a contiguous run.\<close>

fun contains :: "pystr \<Rightarrow> pystr \<Rightarrow> bool" where
  "contains [] p = (p = [])"
| "contains (c # cs) p = (startswith (c # cs) p \<or> contains cs p)"

text \<open>\<open>t.replace(a, b)\<close> for two one-character strings.\<close>

definition replace_char :: "nat \<Rightarrow> nat \<Rightarrow> pystr \<Rightarrow> pystr" where
  "replace_char a b t = map (\<lambda>c. if c = a then b else c) t"

section \<open>llm.py: TextProcessor\<close>

text \<open>\<open>re.sub(r"\s+", " ", text)\<close>: every maximal run of whitespace becomes one space.\<close>

function collapse_whitespace :: "pystr \<Rightarrow> pystr" where
  "collapse_whitespace [] = []"
| "collapse_whitespace (c # cs) =
     (if py_isspace c then 32 # collapse_whitespace (dropWhile py_isspace cs)
      else c # collapse_whitespace cs)"
  by pat_completeness auto
termination
  by (relation "measure length") (auto simp: le_imp_less_Suc length_dropWhile_le)

text \<open>
  Lines 32 to 35: the full-width comma, full stop, question mark, exclamation mark, colon
  and semicolon and the four corner brackets are replaced, one \<open>replace\<close> after the
  other, by their ASCII counterparts.
\<close>

definition replace_fullwidth :: "pystr \<Rightarrow> pystr" where
  "replace_fullwidth t =
     (let t = replace_char 65292 44 t; t = replace_char 12290 46 t;
          t = replace_char 65311 63 t; t = replace_char 65281 33 t;
          t = replace_char 65306 58 t; t = replace_char 65307 59 t;
          t = replace_char 12300 34 t; t = replace_char 12301 34 t;
          t = replace_char 12302 39 t; t = replace_char 12303 39 t
      in t)"

text \<open>The character class of line 38: \<open>. , ! ? ; : ( ) " ' -\<close>.\<close>

definition punctuation :: "nat list" where
  "punctuation = [46, 44, 33, 63, 59, 58, 40, 41, 34, 39, 45]"

definition remove_punctuation :: "pystr \<Rightarrow> pystr" where
  "remove_punctuation t = filter (\<lambda>c. c \<notin> set punctuation) t"

text \<open>
  \<open>normalize_text\<close>. \<open>str.lower\<close> follows the Unicode case tables, which are not part
  of the repository: it is the parameter \<open>lower\<close>.
\<close>

definition normalize_text :: "(pystr \<Rightarrow> pystr) \<Rightarrow> evaluation_config \<Rightarrow> pystr \<Rightarrow> pystr" where
  "normalize_text lower cfg text =
     (if text = [] then []
      else
        let t = strip text;
            t = (if text_normalization cfg
                 then replace_fullwidth (collapse_whitespace t) else t);
            t = (if punctuation_ignore cfg then remove_punctuation t else t);
            t = (if \<not> case_sensitive cfg then lower t else t)
        in strip t)"

text \<open>
  What one pass should establish, stated on the string itself: no whitespace at either
  end and, for each toggle that is on, nothing left for its step to change.
\<close>

definition fullwidth_marks :: "nat list" where
  "fullwidth_marks = [65292, 12290, 65311, 65281, 65306, 65307, 12300, 12301, 12302, 12303]"

definition normalized :: "(pystr \<Rightarrow> pystr) \<Rightarrow> evaluation_config \<Rightarrow> pystr \<Rightarrow> bool" where
  "normalized lower cfg t \<longleftrightarrow>
     strip t = t \<and>
     (text_normalization cfg \<longrightarrow>
        collapse_whitespace t = t \<and> (\<forall>c \<in> set t. c \<notin> set fullwidth_marks)) \<and>
     (punctuation_ignore cfg \<longrightarrow> (\<forall>c \<in> set t. c \<notin> set punctuation)) \<and>
     (\<not> case_sensitive cfg \<longrightarrow> lower t = t)"

text \<open>
  What the proofs about two passes use of \<open>str.lower\<close>: it keeps the empty string, a
  second application changes nothing, it commutes with \<open>strip\<close> and with collapsing
  whitespace (it neither changes nor produces whitespace), and it produces neither
  punctuation of line 38 nor a full-width mark of lines 32 to 35.
\<close>

definition lower_compatible :: "(pystr \<Rightarrow> pystr) \<Rightarrow> bool" where
  "lower_compatible lower \<longleftrightarrow>
     lower [] = [] \<and>
     (\<forall>x. lower (lower x) = lower x) \<and>
     (\<forall>x. lower (strip x) = strip (lower x)) \<and>
     (\<forall>x. lower (collapse_whitespace x) = collapse_whitespace (lower x)) \<and>
     (\<forall>x. (\<forall>c \<in> set x. c \<notin> set punctuation) \<longrightarrow>
          (\<forall>c \<in> set (lower x). c \<notin> set punctuation)) \<and>
     (\<forall>x. (\<forall>c \<in> set x. c \<notin> set fullwidth_marks) \<longrightarrow>
          (\<forall>c \<in> set (lower x). c \<notin> set fullwidth_marks))"

text \<open>\<open>str.lower\<close> on a string of ASCII characters only; other code points are kept.\<close>

definition ascii_lower :: "pystr \<Rightarrow> pystr" where
  "ascii_lower t = map (\<lambda>c. if 65 \<le> c \<and> c \<le> 90 then c + 32 else c) t"

section \<open>llm.py: LLMService\<close>

text \<open>Lines 69, 71, 89, 192, 238 and 255 of llm.py: the messages of the failures.\<close>

definition msg_transcribed_empty :: pystr where
  "msg_transcribed_empty = [36681, 37636, 25991, 23383, 19981, 33021, 28858, 31354]"
definition msg_reference_empty :: pystr where
  "msg_reference_empty = [27161, 28310, 25991, 26412, 19981, 33021, 28858, 31354]"
definition msg_ai_failed_prefix :: pystr where
  "msg_ai_failed_prefix =
     [65, 73, 32, 20998, 26512, 36942, 31243, 30332, 29983, 37679, 35492, 58, 32]"
definition msg_api_call_failed :: pystr where
  "msg_api_call_failed =
     [79, 112, 101, 110, 65, 73, 32, 65, 80, 73, 32, 21628, 21483, 22833, 25943]"
definition msg_unparsable_prefix :: pystr where
  "msg_unparsable_prefix =
     [28961, 27861, 35299, 26512, 76, 76, 77, 30340, 22238, 25033, 58, 32]"
definition msg_llm_unavailable :: pystr where
  "msg_llm_unavailable =
     [25991, 23383, 27604, 23565, 20998, 26512, 26381, 21209, 19981, 21487, 29992]"

text \<open>Line 209: the default summary.\<close>

definition default_summary :: pystr where
  "default_summary = [20998, 26512, 23436, 25104]"

text \<open>
  One call of \<open>client.chat.completions.create\<close> followed by
  \<open>response.choices[0].message.content\<close>: the message content, or the exception raised on
  the way (an \<open>APIError\<close> of the client, or for instance the \<open>AttributeError\<close> of a
  response without content).
\<close>

datatype api_outcome = Content pystr | Raises pyexc

text \<open>
  The body of the \<open>try\<close> of \<open>_call_openai_api\<close>: the \<open>k\<close>-th call of the backend
  on the prompt, and the value or the exception the body ends with.
\<close>

definition attempt :: "(nat \<Rightarrow> pystr \<Rightarrow> api_outcome) \<Rightarrow> pystr \<Rightarrow> nat \<Rightarrow> pyexc + pystr" where
  "attempt backend prompt k =
     (case backend k prompt of Content c \<Rightarrow> Inr (strip c) | Raises e \<Rightarrow> Inl e)"

text \<open>
  \<open>_call_openai_api\<close>. \<open>calls\<close> counts the calls of the backend made so far; the
  result carries the count after the call.
\<close>

function call_openai_api ::
    "(nat \<Rightarrow> pystr \<Rightarrow> api_outcome) \<Rightarrow> pystr \<Rightarrow> nat \<Rightarrow> nat \<Rightarrow> (pyexc + pystr) \<times> nat" where
  "call_openai_api backend prompt retry_count calls =
     (case attempt backend prompt calls of
        Inr text \<Rightarrow> (Inr text, Suc calls)
      | Inl e \<Rightarrow>
          if caught_by [APIError] e then
            if retry_count < 2
            then call_openai_api backend prompt (retry_count + 1) (Suc calls)
            else (Inl (Exc RuntimeError msg_api_call_failed), Suc calls)
          else (Inl e, Suc calls))"
  by pat_completeness auto
termination
  by (relation "measure (\<lambda>(backend, prompt, retry_count, calls). 2 - retry_count)") auto

declare call_openai_api.simps [simp del]


text \<open>
  The library functions the services call: \<open>json.loads\<close> (\<open>None\<close> for a
  \<open>JSONDecodeError\<close>), \<open>float\<close> on a string (\<open>None\<close> for a \<open>ValueError\<close>),
  \<open>str.lower\<close>, \<open>Path(p).name\<close>, \<open>str(Path(p))\<close> and the format \<open>:.1f\<close> of a
  number of bytes divided twice by 1024.
\<close>

record builtins =
  json_loads :: "pystr \<Rightarrow> json option"
  float_of_str :: "pystr \<Rightarrow> pyfloat option"
  str_lower :: "pystr \<Rightarrow> pystr"
  path_name :: "pystr \<Rightarrow> pystr"
  path_str :: "pystr \<Rightarrow> pystr"
  format_mb :: "nat \<Rightarrow> pystr"

text \<open>
  \<open>float(i)\<close> raises \<open>OverflowError\<close> when the integer rounds to a double beyond
  the largest one.
\<close>

definition double_overflow :: int where
  "double_overflow = 2 ^ 1024 - 2 ^ 970"

text \<open>
  \<open>float(v)\<close> for a JSON value. A string is parsed (\<open>ValueError\<close> when it is not a
  number), \<open>None\<close>, a list and a dict raise \<open>TypeError\<close>. The double of an integer
  beyond \<open>2 ^ 53\<close> is the nearest one; the model keeps the integer's own value, which the
  parser only compares with 0 and with 100, where rounding changes nothing.
\<close>

fun py_float :: "builtins \<Rightarrow> json \<Rightarrow> pyexc + pyfloat" where
  "py_float B (JInt i) =
     (if double_overflow \<le> \<bar>i\<bar> then Inl (Exc OverflowError (ascii ''int too large''))
      else Inr (Finite (of_int i)))"
| "py_float B (JFloat f) = Inr f"
| "py_float B (JBool b) = Inr (Finite (if b then 1 else 0))"
| "py_float B (JStr s) =
     (case float_of_str B s of
        None \<Rightarrow> Inl (Exc ValueError (ascii ''could not convert string to float''))
      | Some f \<Rightarrow> Inr f)"
| "py_float B v = Inl (Exc TypeError (ascii ''float() argument''))"

text \<open>
  \<open>min(a, b)\<close> returns \<open>b\<close> when \<open>b < a\<close> and \<open>a\<close> otherwise, \<open>max(a, b)\<close>
  returns \<open>b\<close> when \<open>b > a\<close>; a comparison with NaN is false. The integers 0 and 100 of
  lines 228 to 233 are written as the floats equal to them.
\<close>

fun float_lt :: "pyfloat \<Rightarrow> pyfloat \<Rightarrow> bool" where
  "float_lt NaN y = False"
| "float_lt x NaN = False"
| "float_lt (Finite a) (Finite b) = (a < b)"
| "float_lt NegInf NegInf = False"
| "float_lt NegInf y = True"
| "float_lt x PosInf = (x \<noteq> PosInf)"
| "float_lt x NegInf = False"
| "float_lt PosInf y = False"

definition py_min :: "pyfloat \<Rightarrow> pyfloat \<Rightarrow> pyfloat" where
  "py_min a b = (if float_lt b a then b else a)"

definition py_max :: "pyfloat \<Rightarrow> pyfloat \<Rightarrow> pyfloat" where
  "py_max a b = (if float_lt a b then b else a)"

definition clamp_score :: "pyfloat \<Rightarrow> pyfloat" where
  "clamp_score x = py_max (Finite 0) (py_min (Finite 100) x)"

definition default_error_analysis :: json where
  "default_error_analysis =
     JObj [(k_substitutions, JInt 0), (k_deletions, JInt 0),
           (k_insertions, JInt 0), (k_total_errors, JInt 0)]"

definition required_fields :: pydict where
  "required_fields =
     [(k_summary, JStr default_summary),
      (k_accuracy_score, JFloat (Finite 0)),
      (k_semantic_similarity, JFloat (Finite 0)),
      (k_error_analysis, default_error_analysis),
      (k_key_differences, JArr []),
      (k_suggestions, JArr []),
      (k_reasoning, JStr [])]"

fun is_dict :: "json \<Rightarrow> bool" where
  "is_dict (JObj d) = True"
| "is_dict v = False"

text \<open>Lines 197 to 203: the text without its surrounding whitespace and code fences.\<close>

definition strip_fences :: "pystr \<Rightarrow> pystr" where
  "strip_fences response_text =
     (let cleaned_text = strip response_text;
          cleaned_text = (if startswith cleaned_text (ascii ''```json'')
                          then drop 7 cleaned_text else cleaned_text);
          cleaned_text = (if startswith cleaned_text (ascii ''```'')
                          then drop 3 cleaned_text else cleaned_text);
          cleaned_text = (if endswith cleaned_text (ascii ''```'')
                          then take (length cleaned_text - 3) cleaned_text else cleaned_text)
      in cleaned_text)"

text \<open>
  Lines 222 to 233, on the dict that \<open>json.loads\<close> returned: the backfill of the
  required fields, the replacement of an \<open>error_analysis\<close> that is no dict, and the two
  clamped scores.
\<close>

definition repair_fields :: "pydict \<Rightarrow> pydict" where
  "repair_fields result =
     (let result = fold (\<lambda>(field, dflt). setdefault field dflt) required_fields result
      in if \<not> is_dict (dict_get result k_error_analysis JNull)
         then dict_set k_error_analysis default_error_analysis result
         else result)"

definition clamp_scores :: "builtins \<Rightarrow> pydict \<Rightarrow> pyexc + pydict" where
  "clamp_scores B result =
     (case py_float B (dict_get result k_accuracy_score (JInt 0)) of
        Inl e \<Rightarrow> Inl e
      | Inr a \<Rightarrow>
          let result = dict_set k_accuracy_score (JFloat (clamp_score a)) result
          in case py_float B (dict_get result k_semantic_similarity (JInt 0)) of
               Inl e \<Rightarrow> Inl e
             | Inr s \<Rightarrow> Inr (dict_set k_semantic_similarity (JFloat (clamp_score s)) result))"

text \<open>
  The body of the \<open>try\<close> of \<open>_parse_comparison_response\<close>. A payload that is valid
  JSON but no object has no \<open>setdefault\<close>: \<open>AttributeError\<close>.
\<close>

definition parse_body :: "builtins \<Rightarrow> pystr \<Rightarrow> pyexc + pydict" where
  "parse_body B response_text =
     (case json_loads B (strip (strip_fences response_text)) of
        None \<Rightarrow> Inl (Exc JSONDecodeError (ascii ''Expecting value''))
      | Some (JObj result) \<Rightarrow> clamp_scores B (repair_fields result)
      | Some v \<Rightarrow> Inl (Exc AttributeError (ascii ''object has no attribute setdefault'')))"

definition parse_comparison_response :: "builtins \<Rightarrow> pystr \<Rightarrow> pyexc + pydict" where
  "parse_comparison_response B response_text =
     (case parse_body B response_text of
        Inr result \<Rightarrow> Inr result
      | Inl e \<Rightarrow>
          if caught_by [JSONDecodeError, TypeError] e
          then Inl (Exc RuntimeError (msg_unparsable_prefix @ response_text))
          else Inl e)"

text \<open>
  The service, with the clients it holds: the chat backend, the fixed few-shot template
  of \<open>_build_comparison_prompt\<close> (lines 91 to 167, applied to the reference and the
  transcript) and the configuration.
\<close>

record llm_service =
  chat :: "nat \<Rightarrow> pystr \<Rightarrow> api_outcome"
  build_comparison_prompt :: "pystr \<Rightarrow> pystr \<Rightarrow> pystr"

text \<open>
  \<open>LLMService.compare_text_accuracy\<close>; the second component is the number of calls of
  the chat backend.
\<close>

definition svc_compare_text_accuracy ::
    "builtins \<Rightarrow> evaluation_config \<Rightarrow> llm_service \<Rightarrow> pystr \<Rightarrow> pystr \<Rightarrow> (pyexc + pydict) \<times> nat" where
  "svc_compare_text_accuracy B cfg L transcribed_text reference_text =
     (if transcribed_text = [] \<or> strip transcribed_text = []
      then (Inl (Exc ValueError msg_transcribed_empty), 0)
      else if reference_text = [] \<or> strip reference_text = []
      then (Inl (Exc ValueError msg_reference_empty), 0)
      else
        let norm_transcribed = normalize_text (str_lower B) cfg transcribed_text;
            norm_reference = normalize_text (str_lower B) cfg reference_text;
            prompt = build_comparison_prompt L norm_reference norm_transcribed;
            (response, calls) = call_openai_api (chat L) prompt 0 0;
            outcome = (case response of
                         Inl e \<Rightarrow> Inl e
                       | Inr response_text \<Rightarrow> parse_comparison_response B response_text)
        in case outcome of
             Inr result \<Rightarrow> (Inr result, calls)
           | Inl e \<Rightarrow>
               if caught_by [APIError, RuntimeError, ValueError] e
               then (Inl (Exc RuntimeError (msg_ai_failed_prefix @ str_exc e)), calls)
               else (Inl e, calls))"

text \<open>The module-level function; \<open>llm_service\<close> is \<open>None\<close> when the service failed to start.\<close>

definition compare_text_accuracy ::
    "builtins \<Rightarrow> evaluation_config \<Rightarrow> llm_service option \<Rightarrow> pystr \<Rightarrow> pystr \<Rightarrow>
     (pyexc + pydict) \<times> nat" where
  "compare_text_accuracy B cfg llm transcribed_text reference_text =
     (case llm of
        None \<Rightarrow> (Inl (Exc RuntimeError msg_llm_unavailable), 0)
      | Some L \<Rightarrow> svc_compare_text_accuracy B cfg L transcribed_text reference_text)"

section \<open>stt.py: AudioRecorder\<close>

type_synonym frame = "nat list"

datatype pyaudio_handle = PyAudioInstance
datatype stream_handle = InputStream

text \<open>
  The fields of the recorder that change. \<open>thread_alive\<close> stands for
  \<open>self.record_thread and self.record_thread.is_alive()\<close>.
\<close>

record audio_recorder =
  is_recording :: bool
  audio_data :: "frame list"
  audio :: "pyaudio_handle option"
  stream :: "stream_handle option"
  thread_alive :: bool

definition chunk :: nat where "chunk = 1024"
definition sample_rate :: nat where "sample_rate = 16000"

text \<open>The recorder after \<open>__init__\<close>.\<close>

definition new_recorder :: audio_recorder where
  "new_recorder = \<lparr> is_recording = False, audio_data = [], audio = None, stream = None,
     thread_alive = False \<rparr>"

text \<open>
  What the audio device and the capture thread do during one call of the recorder: the
  number of devices, whether opening the stream and starting the thread raise, the
  frames the capture thread still appends while \<open>stop_recording\<close> waits for it and
  whether that wait times out, the path of the saved file (\<open>None\<close> when saving raises
  the \<open>RuntimeError\<close> or \<open>IOError\<close> the handler of \<open>stop_recording\<close> catches), and
  whether \<open>stop_stream\<close>, \<open>close\<close> and \<open>terminate\<close> raise \<open>IOError\<close>.
\<close>

record device =
  device_count :: nat
  open_fails :: bool
  thread_start_fails :: bool
  late_frames :: "frame list"
  join_times_out :: bool
  save_path :: "pystr option"
  stop_stream_fails :: bool
  close_fails :: bool
  terminate_fails :: bool

text \<open>
  \<open>_cleanup_audio\<close>: one \<open>try\<close> around both releases, whose handler only logs. An
  \<open>IOError\<close> of \<open>stop_stream\<close> or \<open>close\<close> leaves both fields as they are, one of
  \<open>terminate\<close> leaves \<open>self.audio\<close>.
\<close>

definition cleanup_audio :: "device \<Rightarrow> audio_recorder \<Rightarrow> audio_recorder" where
  "cleanup_audio dev r =
     (if stream r \<noteq> None \<and> (stop_stream_fails dev \<or> close_fails dev) then r
      else
        let r = (if stream r \<noteq> None then r\<lparr>stream := None\<rparr> else r)
        in if audio r \<noteq> None \<and> terminate_fails dev then r
           else if audio r \<noteq> None then r\<lparr>audio := None\<rparr> else r)"

definition recorder_start_recording :: "device \<Rightarrow> audio_recorder \<Rightarrow> bool \<times> audio_recorder" where
  "recorder_start_recording dev r =
     (if is_recording r then (False, r)
      else
        let r = r\<lparr>audio := Some PyAudioInstance\<rparr>
        in if device_count dev = 0 then (False, cleanup_audio dev r)
           else if open_fails dev then (False, cleanup_audio dev r)
           else
             let r = r\<lparr>stream := Some InputStream, audio_data := [], is_recording := True,
                       thread_alive := False\<rparr>
             in if thread_start_fails dev then (False, cleanup_audio dev r)
                else (True, r\<lparr>thread_alive := True\<rparr>))"

definition recorder_stop_recording ::
    "device \<Rightarrow> audio_recorder \<Rightarrow> pystr option \<times> audio_recorder" where
  "recorder_stop_recording dev r =
     (if \<not> is_recording r then (None, r)
      else
        let r = r\<lparr>is_recording := False\<rparr>;
            r = (if thread_alive r
                 then r\<lparr>audio_data := audio_data r @ late_frames dev,
                        thread_alive := join_times_out dev\<rparr>
                 else r)
        in if audio_data r = [] then (None, cleanup_audio dev r)
           else (case save_path dev of
                   Some temp_file \<Rightarrow> (Some temp_file, cleanup_audio dev r)
                 | None \<Rightarrow> (None, cleanup_audio dev r)))"


definition recorder_get_recording_duration :: "audio_recorder \<Rightarrow> real" where
  "recorder_get_recording_duration r =
     (if \<not> is_recording r \<or> audio_data r = [] then 0
      else real (length (audio_data r) * chunk) / real sample_rate)"








section \<open>stt.py: OpenAISTTClient and STTService\<close>

text \<open>Lines 189 to 246, 271, 302 and 53 of stt.py: the messages of the failures.\<close>

definition msg_path_empty :: pystr where
  "msg_path_empty = [38899, 38971, 27284, 26696, 36335, 24465, 19981, 33021, 28858, 31354]"
definition msg_not_found_prefix :: pystr where
  "msg_not_found_prefix = [38899, 38971, 27284, 26696, 19981, 23384, 22312, 58, 32]"
definition msg_too_large_prefix :: pystr where
  "msg_too_large_prefix = [27284, 26696, 36942, 22823, 58, 32]"
definition msg_too_large_suffix :: pystr where
  "msg_too_large_suffix = [77, 66, 65292, 36229, 36942, 32, 50, 53, 77, 66, 32, 38480, 21046]"
definition msg_too_small :: pystr where
  "msg_too_small = [27284, 26696, 36942, 23567, 65292, 21487, 33021, 27794, 26377, 26377,
     25928, 30340, 38899, 38971, 20839, 23481]"
definition msg_no_speech :: pystr where
  "msg_no_speech = [28961, 27861, 35672, 21029, 35486, 38899, 20839, 23481, 65292, 27284,
     26696, 21487, 33021, 25613, 22750, 25110, 19981, 21253, 21547, 35486, 38899]"
definition msg_openai_service_prefix :: pystr where
  "msg_openai_service_prefix =
     [79, 112, 101, 110, 65, 73, 32, 26381, 21209, 37679, 35492, 58, 32]"
definition msg_bad_format :: pystr where
  "msg_bad_format = [27284, 26696, 26684, 24335, 19981, 34987, 25903, 25588, 25110, 27284,
     26696, 25613, 22750]"
definition msg_over_limit :: pystr where
  "msg_over_limit = [27284, 26696, 36229, 36942, 32, 50, 53, 77, 66, 32, 38480, 21046]"
definition msg_processing_failed_prefix :: pystr where
  "msg_processing_failed_prefix =
     [35486, 38899, 35672, 21029, 27284, 26696, 34389, 29702, 22833, 25943, 58, 32]"
definition msg_stt_failed_prefix :: pystr where
  "msg_stt_failed_prefix = [35486, 38899, 35672, 21029, 22833, 25943, 58, 32]"
definition msg_stt_unavailable :: pystr where
  "msg_stt_unavailable = [83, 84, 84, 32, 26381, 21209, 19981, 21487, 29992]"

text \<open>
  The file system and the transcription backend as the client sees them:
  \<open>Path.exists\<close>, \<open>stat().st_size\<close>, the exception \<open>open(path, "rb")\<close> raises if any
  (an \<open>OSError\<close>), and one call of \<open>client.audio.transcriptions.create\<close> with the text
  read from its response.
\<close>

record stt_client =
  path_exists :: "pystr \<Rightarrow> bool"
  path_size :: "pystr \<Rightarrow> nat"
  open_rb :: "pystr \<Rightarrow> pyexc option"
  whisper :: "pystr \<Rightarrow> api_outcome"

text \<open>\<open>_handle_transcription_error\<close> always raises; the model returns what it raises.\<close>

definition handle_transcription_error :: "builtins \<Rightarrow> pyexc \<Rightarrow> pyexc" where
  "handle_transcription_error B error =
     (let error_msg = str_exc error
      in if contains error_msg (ascii ''Unrecognized file format'')
         then Exc ValueError msg_bad_format
         else if contains (str_lower B error_msg) (ascii ''file too large'')
         then Exc ValueError msg_over_limit
         else Exc RuntimeError (msg_processing_failed_prefix @ error_msg))"

text \<open>
  \<open>OpenAISTTClient.transcribe_audio\<close> on a path given as a \<open>str\<close>. The second component
  is the number of calls of the transcription backend.
\<close>

definition max_size :: nat where
  "max_size = 25 * 1024 * 1024"

definition client_transcribe_audio ::
    "builtins \<Rightarrow> stt_client \<Rightarrow> pystr \<Rightarrow> (pyexc + pystr \<times> real) \<times> nat" where
  "client_transcribe_audio B C audio_file_path =
     (if audio_file_path = [] then (Inl (Exc ValueError msg_path_empty), 0)
      else if \<not> path_exists C audio_file_path
      then (Inl (Exc FileNotFoundError (msg_not_found_prefix @ path_str B audio_file_path)), 0)
      else
        let file_size = path_size C audio_file_path
        in if file_size > max_size
           then (Inl (Exc ValueError
                   (msg_too_large_prefix @ format_mb B file_size @ msg_too_large_suffix)), 0)
           else if file_size < 1024 then (Inl (Exc ValueError msg_too_small), 0)
           else
             let (body, calls) =
                   (case open_rb C audio_file_path of
                      Some e \<Rightarrow> (Inl e, 0)
                    | None \<Rightarrow>
                        (case whisper C audio_file_path of
                           Raises e \<Rightarrow> (Inl e, 1)
                         | Content text \<Rightarrow>
                             let transcript = strip text
                             in if transcript = []
                                then (Inl (Exc ValueError msg_no_speech), 1)
                                else (Inr (transcript, 1), 1)))
             in case body of
                  Inr r \<Rightarrow> (Inr r, calls)
                | Inl e \<Rightarrow>
                    if caught_by [APIError] e
                    then (Inl (Exc RuntimeError (msg_openai_service_prefix @ str_exc e)), calls)
                    else if caught_by [OSError, ValueError] e
                    then (Inl (handle_transcription_error B e), calls)
                    else (Inl e, calls))"

record stt_service =
  client :: stt_client
  recorder :: audio_recorder

definition service_transcribe_audio ::
    "builtins \<Rightarrow> stt_service \<Rightarrow> pystr \<Rightarrow> (pyexc + pystr \<times> real) \<times> nat" where
  "service_transcribe_audio B S audio_file_path =
     (if audio_file_path = [] then (Inl (Exc ValueError msg_path_empty), 0)
      else
        case client_transcribe_audio B (client S) audio_file_path of
          (Inr r, calls) \<Rightarrow> (Inr r, calls)
        | (Inl e, calls) \<Rightarrow>
            if caught_by [RuntimeError, ValueError] e
            then (Inl (Exc RuntimeError (msg_stt_failed_prefix @ str_exc e)), calls)
            else (Inl e, calls))"

text \<open>
  The module-level functions of stt.py. \<open>stt_service\<close> is \<open>None\<close> when the service
  failed to start; the functions that change the recorder return the service with it.
\<close>

definition transcribe_audio ::
    "builtins \<Rightarrow> stt_service option \<Rightarrow> pystr \<Rightarrow> (pyexc + pystr \<times> real) \<times> nat" where
  "transcribe_audio B stt audio_file_path =
     (case stt of
        None \<Rightarrow> (Inl (Exc RuntimeError msg_stt_unavailable), 0)
      | Some S \<Rightarrow> service_transcribe_audio B S audio_file_path)"

definition start_recording ::
    "device \<Rightarrow> stt_service option \<Rightarrow> pyexc + bool \<times> stt_service option" where
  "start_recording dev stt =
     (case stt of
        None \<Rightarrow> Inl (Exc RuntimeError msg_stt_unavailable)
      | Some S \<Rightarrow>
          let (started, r) = recorder_start_recording dev (recorder S)
          in Inr (started, Some (S\<lparr>recorder := r\<rparr>)))"

definition stop_recording ::
    "device \<Rightarrow> stt_service option \<Rightarrow> pyexc + pystr option \<times> stt_service option" where
  "stop_recording dev stt =
     (case stt of
        None \<Rightarrow> Inl (Exc RuntimeError msg_stt_unavailable)
      | Some S \<Rightarrow>
          let (temp_file, r) = recorder_stop_recording dev (recorder S)
          in Inr (temp_file, Some (S\<lparr>recorder := r\<rparr>)))"

definition is_recording_api :: "stt_service option \<Rightarrow> bool" where
  "is_recording_api stt =
     (case stt of None \<Rightarrow> False | Some S \<Rightarrow> is_recording (recorder S))"

definition get_recording_duration :: "stt_service option \<Rightarrow> real" where
  "get_recording_duration stt =
     (case stt of None \<Rightarrow> 0 | Some S \<Rightarrow> recorder_get_recording_duration (recorder S))"

section \<open>evaluation.py: EvaluationService\<close>

text \<open>Lines 120, 130 and 131 of evaluation.py.\<close>

definition summary_failed :: pystr where
  "summary_failed = [35413, 20272, 22833, 25943]"
definition suggestion_check_audio :: pystr where
  "suggestion_check_audio = [27298, 26597, 38899, 38971, 27284, 26696]"
definition suggestion_check_network :: pystr where
  "suggestion_check_network = [30906, 35469, 32178, 36335, 36899, 32218]"
definition reasoning_failed_prefix :: pystr where
  "reasoning_failed_prefix = [35413, 20272, 36942, 31243, 30332, 29983, 37679, 35492, 58, 32]"

record transcription_result =
  file_path :: pystr
  file_name :: pystr
  transcript :: "pystr option"
  t_confidence :: real
  t_success :: bool
  t_error :: "pystr option"

text \<open>
  \<open>EvaluationResult\<close>. The empty dict that \<open>transcription\<close> and
  \<open>evaluation_metrics\<close> start with is \<open>None\<close>, the empty \<open>comparison\<close> the empty list.
\<close>

record evaluation_result =
  evaluation_id :: pystr
  timestamp :: pystr
  audio_file :: pystr
  ref_text :: pystr
  transcription :: "transcription_result option"
  comparison_report :: pydict
  metrics :: "evaluation_metrics option"
  processing_time :: real
  success :: bool
  error_message :: "pystr option"

text \<open>\<open>uuid.uuid4()\<close>, \<open>datetime.now()\<close> and the rounded time the call took.\<close>

record clock =
  new_uuid :: pystr
  now_iso :: pystr
  elapsed :: real

definition new_evaluation_result :: "clock \<Rightarrow> evaluation_result" where
  "new_evaluation_result K =
     \<lparr> evaluation_id = new_uuid K, timestamp = now_iso K, audio_file = [], ref_text = [],
       transcription = None, comparison_report = [], metrics = None, processing_time = 0,
       success = False, error_message = None \<rparr>"

text \<open>Everything \<open>evaluate_single_file\<close> reads from outside.\<close>

record services =
  lib :: builtins
  config :: evaluation_config
  stt :: "stt_service option"
  llm :: "llm_service option"
  time :: clock

text \<open>The number of calls of the transcription backend and of the chat backend.\<close>

type_synonym backend_calls = "nat \<times> nat"

text \<open>
  The body of the \<open>try\<close> of \<open>evaluate_single_file\<close> (lines 68 to 101): the exception it
  ends with, if any, and the result object as it is at that moment.
\<close>

definition evaluate_try ::
    "services \<Rightarrow> pystr \<Rightarrow> pystr \<Rightarrow> (pyexc option \<times> evaluation_result) \<times> backend_calls" where
  "evaluate_try W audio_file_path reference_text =
     (let result = (new_evaluation_result (time W))
                     \<lparr>audio_file := audio_file_path, ref_text := reference_text\<rparr>
      in case transcribe_audio (lib W) (stt W) audio_file_path of
           (Inl e, n) \<Rightarrow> ((Some e, result), (n, 0))
         | (Inr (text, confidence), n) \<Rightarrow>
             let result = result\<lparr>transcription := Some
                   \<lparr> file_path = audio_file_path,
                     file_name = path_name (lib W) audio_file_path,
                     transcript = Some text, t_confidence = confidence,
                     t_success = True, t_error = None \<rparr>\<rparr>
             in case compare_text_accuracy (lib W) (config W) (llm W) text reference_text of
                  (Inl e, m) \<Rightarrow> ((Some e, result), (n, m))
                | (Inr report, m) \<Rightarrow>
                    let report = dict_set k_success (JBool True) report;
                        result = result\<lparr>comparison_report := report\<rparr>
                    in case calculate_evaluation_metrics (config W) report confidence of
                         Inl e \<Rightarrow> ((Some e, result), (n, m))
                       | Inr ms \<Rightarrow>
                           ((None, result\<lparr>metrics := Some ms, success := True\<rparr>), (n, m)))"

text \<open>Lines 119 to 134: the comparison written when none was obtained.\<close>

definition failure_comparison :: "pystr \<Rightarrow> pydict" where
  "failure_comparison msg =
     [(k_summary, JStr summary_failed),
      (k_accuracy_score, JFloat (Finite 0)),
      (k_semantic_similarity, JFloat (Finite 0)),
      (k_error_analysis, default_error_analysis),
      (k_key_differences, JArr []),
      (k_suggestions, JArr [JStr suggestion_check_audio, JStr suggestion_check_network]),
      (k_reasoning, JStr (reasoning_failed_prefix @ msg)),
      (k_success, JBool False),
      (k_error, JStr msg)]"

text \<open>Lines 104 to 142: the handler of \<open>except (RuntimeError, ValueError) as e\<close>.\<close>

definition evaluate_handler ::
    "services \<Rightarrow> pystr \<Rightarrow> pyexc \<Rightarrow> evaluation_result \<Rightarrow> evaluation_result" where
  "evaluate_handler W audio_file_path e result =
     (let result = result\<lparr>error_message := Some (str_exc e), success := False\<rparr>;
          result = (if transcription result = None
                    then result\<lparr>transcription := Some
                           \<lparr> file_path = audio_file_path,
                             file_name = path_name (lib W) audio_file_path,
                             transcript = None, t_confidence = 0,
                             t_success = False, t_error = Some (str_exc e) \<rparr>\<rparr>
                    else result);
          result = (if comparison_report result = []
                    then result\<lparr>comparison_report := failure_comparison (str_exc e)\<rparr>
                    else result)
      in result\<lparr>metrics := Some
           \<lparr> m_accuracy_score = JFloat (Finite 0), m_semantic_similarity = JFloat (Finite 0),
             accuracy_level = level_failed, m_confidence = 0,
             processing_status = ascii ''failed'' \<rparr>\<rparr>)"

text \<open>
  \<open>EvaluationService.evaluate_single_file\<close>: \<open>Inr\<close> the result it returns, \<open>Inl\<close> the
  exception that leaves it. The \<open>finally\<close> block sets the processing time on every path.
\<close>

definition evaluate_single_file ::
    "services \<Rightarrow> pystr \<Rightarrow> pystr \<Rightarrow> (pyexc + evaluation_result) \<times> backend_calls" where
  "evaluate_single_file W audio_file_path reference_text =
     (case evaluate_try W audio_file_path reference_text of
        ((None, result), calls) \<Rightarrow>
          (Inr (result\<lparr>processing_time := elapsed (time W)\<rparr>), calls)
      | ((Some e, result), calls) \<Rightarrow>
          if caught_by [RuntimeError, ValueError] e
          then (Inr ((evaluate_handler W audio_file_path e result)
                       \<lparr>processing_time := elapsed (time W)\<rparr>), calls)
          else (Inl e, calls))"

section \<open>Example inputs\<close>

text \<open>
  Concrete services on which the theorems below are run. The library functions are given
  on the strings the examples use: file names without a directory, which
  \<open>Path(p).name\<close> and \<open>str(Path(p))\<close> return as they are, and ASCII text, on which
  \<open>str.lower\<close> is \<open>ascii_lower\<close>.
\<close>

definition payload_scores :: pystr where
  \<open>payload_scores = ascii ''{"accuracy_score": 150, "semantic_similarity": -10}''\<close>

definition payload_analysis :: pystr where
  \<open>payload_analysis = ascii ''{"error_analysis": "none", "accuracy_score": 80.5}''\<close>

definition example_builtins :: builtins where
  "example_builtins =
     \<lparr> json_loads = (\<lambda>s. if s = payload_scores
                          then Some (JObj [(k_accuracy_score, JInt 150),
                                           (k_semantic_similarity, JInt (- 10))])
                          else if s = payload_analysis
                          then Some (JObj [(k_error_analysis, JStr (ascii ''none'')),
                                           (k_accuracy_score, JFloat (Finite (161 / 2)))])
                          else None),
       float_of_str = (\<lambda>s. None),
       str_lower = ascii_lower,
       path_name = (\<lambda>p. p),
       path_str = (\<lambda>p. p),
       format_mb = (\<lambda>n. if n = 30 * 1024 * 1024 then ascii ''30.0'' else ascii ''0.0'') \<rparr>"

text \<open>
  A file system with a file of 30 MB, one of 10 bytes and one of 2048 bytes, and a
  transcription backend that answers with a short sentence.
\<close>

definition example_client :: stt_client where
  "example_client =
     \<lparr> path_exists = (\<lambda>p. p \<in> set [ascii ''big.wav'', ascii ''tiny.wav'', ascii ''speech.wav'']),
       path_size = (\<lambda>p. if p = ascii ''big.wav'' then 30 * 1024 * 1024
                          else if p = ascii ''tiny.wav'' then 10 else 2048),
       open_rb = (\<lambda>p. None),
       whisper = (\<lambda>p. Content (ascii '' hello world '')) \<rparr>"

text \<open>
  A chat backend whose first call raises an \<open>APIError\<close> and whose later calls answer,
  and one whose calls all raise it.
\<close>

definition flaky_chat :: "nat \<Rightarrow> pystr \<Rightarrow> api_outcome" where
  "flaky_chat k prompt =
     (if k = 0 then Raises (Exc APIError (ascii ''Connection error.''))
      else Content payload_scores)"


definition example_llm :: llm_service where
  "example_llm = \<lparr> chat = flaky_chat, build_comparison_prompt = (\<lambda>r t. r @ ascii ''|'' @ t) \<rparr>"

definition example_stt :: stt_service where
  "example_stt = \<lparr> client = example_client, recorder = new_recorder \<rparr>"

definition example_clock :: clock where
  "example_clock = \<lparr> new_uuid = ascii ''0f8fad5b-d9cb-469f-a165-70867728950e'',
     now_iso = ascii ''2024-05-01T10:00:00'', elapsed = 12 / 100 \<rparr>"

definition example_services :: services where
  "example_services = \<lparr> lib = example_builtins, config = default_config,
     stt = Some example_stt, llm = Some example_llm, time = example_clock \<rparr>"




section \<open>Accuracy tiers\<close>








section \<open>The module-level functions without a service\<close>

text \<open>
  C10. When \<open>stt_service\<close> is \<open>None\<close>, \<open>is_recording()\<close> returns \<open>False\<close> and
  \<open>get_recording_duration()\<close> returns \<open>0.0\<close> without raising, whereas
  \<open>start_recording()\<close>, \<open>stop_recording()\<close> and \<open>transcribe_audio()\<close> raise a
  \<open>RuntimeError\<close>, and no backend is called.
\<close>

theorem queries_safe_without_service:
  "is_recording_api None = False \<and> get_recording_duration None = 0 \<and>
   start_recording dev None = Inl (Exc RuntimeError msg_stt_unavailable) \<and>
   stop_recording dev None = Inl (Exc RuntimeError msg_stt_unavailable) \<and>
   transcribe_audio B None audio_file_path = (Inl (Exc RuntimeError msg_stt_unavailable), 0)"
  by (simp add: is_recording_api_def get_recording_duration_def start_recording_def
      stop_recording_def transcribe_audio_def)

section \<open>The preconditions of the transcription client\<close>

lemma contains_Nil: "contains t []"
  by (induction t) (simp_all add: startswith_def)

lemma contains_append_right: "contains u p \<Longrightarrow> contains (t @ u) p"
  by (induction t) simp_all

lemma suffix_has_limit: "contains msg_too_large_suffix (ascii ''25MB'')"
  by (simp add: msg_too_large_suffix_def ascii_def startswith_def)

lemma too_large_message_states_limit:
  "contains (msg_too_large_prefix @ size_text @ msg_too_large_suffix) (ascii ''25MB'')"
  by (intro contains_append_right suffix_has_limit)

lemma precondition_messages_distinct:
  "msg_path_empty \<noteq> msg_too_small \<and>
   msg_too_large_prefix @ size_text @ msg_too_large_suffix \<noteq> msg_path_empty \<and>
   msg_too_large_prefix @ size_text @ msg_too_large_suffix \<noteq> msg_too_small"
  by (simp add: msg_path_empty_def msg_too_small_def msg_too_large_prefix_def)

text \<open>
  C6. \<open>OpenAISTTClient.transcribe_audio\<close> raises, before any call of the backend, a
  \<open>ValueError\<close> for an empty path, a \<open>FileNotFoundError\<close> for a file that does not
  exist, a \<open>ValueError\<close> whose message contains \<open>25MB\<close> for a file of more than
  \<open>25 * 1024 * 1024\<close> bytes, and a \<open>ValueError\<close> with the likely-empty message for a
  file of less than 1024 bytes. The four failures differ from each other.
\<close>

theorem transcribe_preconditions:
  "client_transcribe_audio B C [] = (Inl (Exc ValueError msg_path_empty), 0) \<and>
   (p \<noteq> [] \<and> \<not> path_exists C p \<longrightarrow>
      client_transcribe_audio B C p =
        (Inl (Exc FileNotFoundError (msg_not_found_prefix @ path_str B p)), 0)) \<and>
   (p \<noteq> [] \<and> path_exists C p \<and> 25 * 1024 * 1024 < path_size C p \<longrightarrow>
      client_transcribe_audio B C p =
        (Inl (Exc ValueError
           (msg_too_large_prefix @ format_mb B (path_size C p) @ msg_too_large_suffix)), 0) \<and>
      contains (msg_too_large_prefix @ format_mb B (path_size C p) @ msg_too_large_suffix)
        (ascii ''25MB'')) \<and>
   (p \<noteq> [] \<and> path_exists C p \<and> path_size C p < 1024 \<longrightarrow>
      client_transcribe_audio B C p = (Inl (Exc ValueError msg_too_small), 0)) \<and>
   distinct [Exc ValueError msg_path_empty,
             Exc FileNotFoundError (msg_not_found_prefix @ path_str B p),
             Exc ValueError
               (msg_too_large_prefix @ format_mb B (path_size C p) @ msg_too_large_suffix),
             Exc ValueError msg_too_small]"
proof (intro conjI impI)
  show "client_transcribe_audio B C [] = (Inl (Exc ValueError msg_path_empty), 0)"
    by (simp add: client_transcribe_audio_def)
next
  assume "p \<noteq> [] \<and> \<not> path_exists C p"
  then show "client_transcribe_audio B C p =
        (Inl (Exc FileNotFoundError (msg_not_found_prefix @ path_str B p)), 0)"
    by (simp add: client_transcribe_audio_def)
next
  assume "p \<noteq> [] \<and> path_exists C p \<and> 25 * 1024 * 1024 < path_size C p"
  then show "client_transcribe_audio B C p =
        (Inl (Exc ValueError
           (msg_too_large_prefix @ format_mb B (path_size C p) @ msg_too_large_suffix)), 0)"
    by (simp add: client_transcribe_audio_def max_size_def Let_def)
next
  show "contains (msg_too_large_prefix @ format_mb B (path_size C p) @ msg_too_large_suffix)
        (ascii ''25MB'')"
    by (rule too_large_message_states_limit)
next
  assume "p \<noteq> [] \<and> path_exists C p \<and> path_size C p < 1024"
  then show "client_transcribe_audio B C p = (Inl (Exc ValueError msg_too_small), 0)"
    by (simp add: client_transcribe_audio_def max_size_def Let_def)
next
  show "distinct [Exc ValueError msg_path_empty,
             Exc FileNotFoundError (msg_not_found_prefix @ path_str B p),
             Exc ValueError
               (msg_too_large_prefix @ format_mb B (path_size C p) @ msg_too_large_suffix),
             Exc ValueError msg_too_small]"
    using precondition_messages_distinct [of "format_mb B (path_size C p)"]
    by (simp add: eq_commute)
qed

lemma example_files:
  "ascii ''missing.wav'' \<noteq> [] \<and> \<not> path_exists example_client (ascii ''missing.wav'')"
  "ascii ''big.wav'' \<noteq> [] \<and> path_exists example_client (ascii ''big.wav'') \<and>
   25 * 1024 * 1024 < path_size example_client (ascii ''big.wav'')"
  "ascii ''tiny.wav'' \<noteq> [] \<and> path_exists example_client (ascii ''tiny.wav'') \<and>
   path_size example_client (ascii ''tiny.wav'') < 1024"
  by (simp_all add: example_client_def ascii_def)

theorem transcribe_preconditions_witness:
  "client_transcribe_audio example_builtins example_client (ascii ''missing.wav'') =
     (Inl (Exc FileNotFoundError (msg_not_found_prefix @ ascii ''missing.wav'')), 0) \<and>
   client_transcribe_audio example_builtins example_client (ascii ''big.wav'') =
     (Inl (Exc ValueError (msg_too_large_prefix @ ascii ''30.0'' @ msg_too_large_suffix)), 0) \<and>
   client_transcribe_audio example_builtins example_client (ascii ''tiny.wav'') =
     (Inl (Exc ValueError msg_too_small), 0)"
proof -
  have "client_transcribe_audio example_builtins example_client (ascii ''missing.wav'') =
     (Inl (Exc FileNotFoundError
        (msg_not_found_prefix @ path_str example_builtins (ascii ''missing.wav''))), 0)"
    using transcribe_preconditions [of example_builtins example_client "ascii ''missing.wav''"]
      example_files(1) by blast
  moreover
  have "client_transcribe_audio example_builtins example_client (ascii ''big.wav'') =
     (Inl (Exc ValueError (msg_too_large_prefix @
        format_mb example_builtins (path_size example_client (ascii ''big.wav'')) @
        msg_too_large_suffix)), 0)"
    using transcribe_preconditions [of example_builtins example_client "ascii ''big.wav''"]
      example_files(2) by blast
  moreover
  have "client_transcribe_audio example_builtins example_client (ascii ''tiny.wav'') =
     (Inl (Exc ValueError msg_too_small), 0)"
    using transcribe_preconditions [of example_builtins example_client "ascii ''tiny.wav''"]
      example_files(3) by blast
  moreover
  have "path_str example_builtins (ascii ''missing.wav'') = ascii ''missing.wav''"
    "format_mb example_builtins (path_size example_client (ascii ''big.wav'')) = ascii ''30.0''"
    by (simp_all add: example_builtins_def example_client_def)
  ultimately show ?thesis by simp
qed

section \<open>The bounded retry of the comparison backend\<close>















section \<open>The comparison-response parser\<close>

lemma map_of_setdefault:
  "map_of (setdefault k v d) k' =
     (case map_of d k' of Some x \<Rightarrow> Some x | None \<Rightarrow> if k' = k then Some v else None)"
  by (auto simp: setdefault_def map_add_def split: option.splits)

lemma map_of_fold_setdefault:
  "map_of (fold (\<lambda>(field, dflt). setdefault field dflt) fs d) k =
     (case map_of d k of Some x \<Rightarrow> Some x | None \<Rightarrow> map_of fs k)"
proof (induction fs arbitrary: d)
  case Nil
  then show ?case by (simp split: option.split)
next
  case (Cons f fs)
  obtain field dflt where f: "f = (field, dflt)" by (cases f)
  show ?case
    by (simp add: f Cons.IH map_of_setdefault split: option.split)
qed

lemma map_of_dict_set:
  "map_of (dict_set k v d) k' = (if k' = k then Some v else map_of d k')"
  by (simp add: dict_set_def update_conv')

lemma dict_get_dict_set:
  "dict_get (dict_set k v d) k' dflt = (if k' = k then v else dict_get d k' dflt)"
  by (simp add: dict_get_def map_of_dict_set)

lemma required_keys_distinct:
  "distinct [k_summary, k_accuracy_score, k_semantic_similarity, k_error_analysis,
             k_key_differences, k_suggestions, k_reasoning, k_success, k_error]"
  by (simp add: k_summary_def k_accuracy_score_def k_semantic_similarity_def
      k_error_analysis_def k_key_differences_def k_suggestions_def k_reasoning_def
      k_success_def k_error_def ascii_def)

lemma map_of_required_fields:
  "map_of required_fields k =
     (if k = k_summary then Some (JStr default_summary)
      else if k = k_accuracy_score then Some (JFloat (Finite 0))
      else if k = k_semantic_similarity then Some (JFloat (Finite 0))
      else if k = k_error_analysis then Some default_error_analysis
      else if k = k_key_differences then Some (JArr [])
      else if k = k_suggestions then Some (JArr [])
      else if k = k_reasoning then Some (JStr [])
      else None)"
  by (simp add: required_fields_def)

lemma is_dict_default: "is_dict default_error_analysis"
  by (simp add: default_error_analysis_def)

lemma map_of_repair_fields:
  "map_of (repair_fields d) k =
     (if k = k_error_analysis
      then (case map_of d k of
              Some v \<Rightarrow> if is_dict v then Some v else Some default_error_analysis
            | None \<Rightarrow> Some default_error_analysis)
      else (case map_of d k of Some x \<Rightarrow> Some x | None \<Rightarrow> map_of required_fields k))"
  by (simp add: repair_fields_def Let_def dict_get_def map_of_dict_set map_of_fold_setdefault
      map_of_required_fields is_dict_default split: option.split)

lemma clamp_score_Finite:
  "clamp_score (Finite x) = Finite (if x < 0 then 0 else if 100 < x then 100 else x)"
  by (simp add: clamp_score_def py_min_def py_max_def)

lemma clamp_score_special:
  "clamp_score NaN = Finite 100" "clamp_score PosInf = Finite 100"
  "clamp_score NegInf = Finite 0"
  by (simp_all add: clamp_score_def py_min_def py_max_def)

lemma clamp_score_range: "\<exists>x. clamp_score f = Finite x \<and> 0 \<le> x \<and> x \<le> 100"
  by (cases f) (simp_all add: clamp_score_Finite clamp_score_special)

lemma acc_sem_distinct: "k_semantic_similarity \<noteq> k_accuracy_score"
  using required_keys_distinct by auto

lemma clamp_scores_Inr:
  assumes "clamp_scores B d = Inr report"
  shows "\<exists>a s. py_float B (dict_get d k_accuracy_score (JInt 0)) = Inr a \<and>
               py_float B (dict_get d k_semantic_similarity (JInt 0)) = Inr s \<and>
               report = dict_set k_semantic_similarity (JFloat (clamp_score s))
                          (dict_set k_accuracy_score (JFloat (clamp_score a)) d)"
  using assms
  by (auto simp: clamp_scores_def Let_def dict_get_dict_set acc_sem_distinct
      split: sum.splits)

lemma clamp_scores_ok:
  assumes "py_float B (dict_get d k_accuracy_score (JInt 0)) = Inr a"
    "py_float B (dict_get d k_semantic_similarity (JInt 0)) = Inr s"
  shows "clamp_scores B d =
           Inr (dict_set k_semantic_similarity (JFloat (clamp_score s))
                  (dict_set k_accuracy_score (JFloat (clamp_score a)) d))"
  using assms
  by (simp add: clamp_scores_def Let_def dict_get_dict_set acc_sem_distinct)

lemma parse_Inr:
  assumes "parse_comparison_response B text = Inr report"
  shows "\<exists>d. json_loads B (strip (strip_fences text)) = Some (JObj d) \<and>
             clamp_scores B (repair_fields d) = Inr report"
  using assms
  by (auto simp: parse_comparison_response_def parse_body_def
      split: sum.splits option.splits json.splits if_splits)

lemma parse_object:
  assumes "json_loads B (strip (strip_fences text)) = Some (JObj d)"
  shows "parse_comparison_response B text = Inr report \<longleftrightarrow>
         clamp_scores B (repair_fields d) = Inr report"
  using assms
  by (auto simp: parse_comparison_response_def parse_body_def split: sum.splits)
lemma dict_get_repair_score:
  assumes "k = k_accuracy_score \<or> k = k_semantic_similarity"
  shows "dict_get (repair_fields d) k (JInt 0) =
           (case map_of d k of Some v \<Rightarrow> v | None \<Rightarrow> JFloat (Finite 0))"
  using assms required_keys_distinct
  by (auto simp: dict_get_def map_of_repair_fields map_of_required_fields
      split: option.split)

lemma parse_scores:
  assumes "parse_comparison_response B text = Inr report"
  shows "\<exists>d a s. json_loads B (strip (strip_fences text)) = Some (JObj d) \<and>
           py_float B (dict_get (repair_fields d) k_accuracy_score (JInt 0)) = Inr a \<and>
           py_float B (dict_get (repair_fields d) k_semantic_similarity (JInt 0)) = Inr s \<and>
           (\<forall>k. map_of report k =
              (if k = k_semantic_similarity then Some (JFloat (clamp_score s))
               else if k = k_accuracy_score then Some (JFloat (clamp_score a))
               else map_of (repair_fields d) k))"
proof -
  from parse_Inr [OF assms] obtain d where
    d: "json_loads B (strip (strip_fences text)) = Some (JObj d)"
    and c: "clamp_scores B (repair_fields d) = Inr report"
    by blast
  from clamp_scores_Inr [OF c] obtain a s where
    a: "py_float B (dict_get (repair_fields d) k_accuracy_score (JInt 0)) = Inr a"
    and s: "py_float B (dict_get (repair_fields d) k_semantic_similarity (JInt 0)) = Inr s"
    and r: "report = dict_set k_semantic_similarity (JFloat (clamp_score s))
                       (dict_set k_accuracy_score (JFloat (clamp_score a)) (repair_fields d))"
    by blast
  have "\<forall>k. map_of report k =
              (if k = k_semantic_similarity then Some (JFloat (clamp_score s))
               else if k = k_accuracy_score then Some (JFloat (clamp_score a))
               else map_of (repair_fields d) k)"
    by (simp add: r map_of_dict_set)
  with d a s show ?thesis by blast
qed

lemma parse_scores_in_range:
  assumes "parse_comparison_response B text = Inr report"
  shows "\<exists>a s. map_of report k_accuracy_score = Some (JFloat (Finite a)) \<and> 0 \<le> a \<and> a \<le> 100 \<and>
               map_of report k_semantic_similarity = Some (JFloat (Finite s)) \<and>
               0 \<le> s \<and> s \<le> 100"
proof -
  from parse_scores [OF assms] obtain d a s where
    m: "\<forall>k. map_of report k =
              (if k = k_semantic_similarity then Some (JFloat (clamp_score s))
               else if k = k_accuracy_score then Some (JFloat (clamp_score a))
               else map_of (repair_fields d) k)"
    by blast
  obtain x where x: "clamp_score a = Finite x" "0 \<le> x" "x \<le> 100"
    using clamp_score_range [of a] by blast
  obtain y where y: "clamp_score s = Finite y" "0 \<le> y" "y \<le> 100"
    using clamp_score_range [of s] by blast
  from m x y acc_sem_distinct show ?thesis by auto
qed

lemma parse_score_clamped:
  assumes p: "parse_comparison_response B text = Inr report"
    and d: "json_loads B (strip (strip_fences text)) = Some (JObj d)"
    and k: "k = k_accuracy_score \<or> k = k_semantic_similarity"
    and v: "map_of d k = Some v" "py_float B v = Inr f"
  shows "map_of report k = Some (JFloat (clamp_score f))"
proof -
  from parse_scores [OF p] d obtain a s where
    a: "py_float B (dict_get (repair_fields d) k_accuracy_score (JInt 0)) = Inr a"
    and s: "py_float B (dict_get (repair_fields d) k_semantic_similarity (JInt 0)) = Inr s"
    and m: "\<forall>k. map_of report k =
              (if k = k_semantic_similarity then Some (JFloat (clamp_score s))
               else if k = k_accuracy_score then Some (JFloat (clamp_score a))
               else map_of (repair_fields d) k)"
    by auto
  have "dict_get (repair_fields d) k (JInt 0) = v"
    using k v(1) by (simp add: dict_get_repair_score)
  with k a s v(2) have "(k = k_accuracy_score \<and> a = f) \<or> (k = k_semantic_similarity \<and> s = f)"
    using acc_sem_distinct by auto
  with m acc_sem_distinct show ?thesis by auto
qed

text \<open>
  C2. In every report the parser returns, \<open>accuracy_score\<close> and
  \<open>semantic_similarity\<close> are floats between 0 and 100. A score of the payload that
  converts to the finite float \<open>x\<close> is stored as 0 when \<open>x < 0\<close>, as 100 when
  \<open>100 < x\<close> and as \<open>x\<close> otherwise; an infinite score is stored as 0 or 100 by its
  sign and NaN as 100.
\<close>

theorem scores_clamped:
  "(parse_comparison_response B text = Inr report \<longrightarrow>
      (\<exists>a s. map_of report k_accuracy_score = Some (JFloat (Finite a)) \<and> 0 \<le> a \<and> a \<le> 100 \<and>
             map_of report k_semantic_similarity = Some (JFloat (Finite s)) \<and>
             0 \<le> s \<and> s \<le> 100)) \<and>
   (parse_comparison_response B text = Inr report \<and>
    json_loads B (strip (strip_fences text)) = Some (JObj d) \<and>
    (k = k_accuracy_score \<or> k = k_semantic_similarity) \<and>
    map_of d k = Some v \<and> py_float B v = Inr f \<longrightarrow>
      map_of report k = Some (JFloat (clamp_score f)) \<and>
      clamp_score f =
        (case f of
           Finite x \<Rightarrow> Finite (if x < 0 then 0 else if 100 < x then 100 else x)
         | PosInf \<Rightarrow> Finite 100 | NegInf \<Rightarrow> Finite 0 | NaN \<Rightarrow> Finite 100))"
proof (intro conjI impI)
  assume "parse_comparison_response B text = Inr report"
  then show "\<exists>a s. map_of report k_accuracy_score = Some (JFloat (Finite a)) \<and> 0 \<le> a \<and>
      a \<le> 100 \<and> map_of report k_semantic_similarity = Some (JFloat (Finite s)) \<and>
      0 \<le> s \<and> s \<le> 100"
    by (rule parse_scores_in_range)
next
  assume "parse_comparison_response B text = Inr report \<and>
    json_loads B (strip (strip_fences text)) = Some (JObj d) \<and>
    (k = k_accuracy_score \<or> k = k_semantic_similarity) \<and>
    map_of d k = Some v \<and> py_float B v = Inr f"
  then show "map_of report k = Some (JFloat (clamp_score f))"
    using parse_score_clamped [of B "text" report d k v f] by blast
next
  show "clamp_score f =
        (case f of
           Finite x \<Rightarrow> Finite (if x < 0 then 0 else if 100 < x then 100 else x)
         | PosInf \<Rightarrow> Finite 100 | NegInf \<Rightarrow> Finite 0 | NaN \<Rightarrow> Finite 100)"
    by (cases f) (simp_all add: clamp_score_Finite clamp_score_special)
qed

lemma payload_scores_loads:
  "json_loads example_builtins (strip (strip_fences payload_scores)) =
     Some (JObj [(k_accuracy_score, JInt 150), (k_semantic_similarity, JInt (- 10))])"
proof -
  have "strip (strip_fences payload_scores) = payload_scores"
    by (simp add: strip_fences_def strip_def lstrip_def rstrip_def py_isspace_def
        startswith_def endswith_def payload_scores_def ascii_def)
  then show ?thesis by (simp add: example_builtins_def)
qed

lemma double_overflow_large: "2 ^ 53 < double_overflow"
  by (simp add: double_overflow_def)

lemma small_int_no_overflow: "\<not> double_overflow \<le> 150" "\<not> double_overflow \<le> 10"
  using double_overflow_large by simp_all

lemma payload_scores_parses:
  "\<exists>report. parse_comparison_response example_builtins payload_scores = Inr report"
proof -
  let ?d = "[(k_accuracy_score, JInt 150), (k_semantic_similarity, JInt (- 10))]"
  have "py_float example_builtins (dict_get (repair_fields ?d) k_accuracy_score (JInt 0)) =
          Inr (Finite 150)"
    "py_float example_builtins (dict_get (repair_fields ?d) k_semantic_similarity (JInt 0)) =
          Inr (Finite (- 10))"
    using acc_sem_distinct by (simp_all add: dict_get_repair_score small_int_no_overflow)
  from clamp_scores_ok [OF this] show ?thesis
    by (simp add: parse_object [OF payload_scores_loads])
qed

theorem scores_clamped_witness:
  "\<exists>report. parse_comparison_response example_builtins payload_scores = Inr report \<and>
     map_of report k_accuracy_score = Some (JFloat (Finite 100)) \<and>
     map_of report k_semantic_similarity = Some (JFloat (Finite 0))"
proof -
  from payload_scores_parses obtain report where
    r: "parse_comparison_response example_builtins payload_scores = Inr report"
    by blast
  have acc: "map_of [(k_accuracy_score, JInt 150), (k_semantic_similarity, JInt (- 10))]
               k_accuracy_score = Some (JInt 150)"
    and sem: "map_of [(k_accuracy_score, JInt 150), (k_semantic_similarity, JInt (- 10))]
               k_semantic_similarity = Some (JInt (- 10))"
    using acc_sem_distinct by simp_all
  let ?d = "[(k_accuracy_score, JInt 150), (k_semantic_similarity, JInt (- 10))]"
  have "map_of report k_accuracy_score = Some (JFloat (Finite 100))"
    using scores_clamped [of example_builtins payload_scores report ?d k_accuracy_score
        "JInt 150" "Finite 150"] r payload_scores_loads acc
    by (simp add: small_int_no_overflow clamp_score_Finite)
  moreover
  have "map_of report k_semantic_similarity = Some (JFloat (Finite 0))"
    using scores_clamped [of example_builtins payload_scores report ?d k_semantic_similarity
        "JInt (- 10)" "Finite (- 10)"] r payload_scores_loads sem
    by (simp add: small_int_no_overflow clamp_score_Finite)
  ultimately show ?thesis using r by blast
qed

lemma parse_fields_present:
  assumes "parse_comparison_response B text = Inr report"
  shows "(\<forall>k \<in> {k_summary, k_accuracy_score, k_semantic_similarity, k_error_analysis,
               k_key_differences, k_suggestions, k_reasoning}. map_of report k \<noteq> None) \<and>
         is_dict (dict_get report k_error_analysis JNull)"
proof -
  from parse_scores [OF assms] obtain d a s where
    m: "\<forall>k. map_of report k =
              (if k = k_semantic_similarity then Some (JFloat (clamp_score s))
               else if k = k_accuracy_score then Some (JFloat (clamp_score a))
               else map_of (repair_fields d) k)"
    by blast
  have present: "map_of (repair_fields d) k \<noteq> None"
    if "k \<in> {k_summary, k_error_analysis, k_key_differences, k_suggestions, k_reasoning}" for k
    using that by (auto simp: map_of_repair_fields map_of_required_fields split: option.split)
  have "is_dict (dict_get (repair_fields d) k_error_analysis JNull)"
    by (simp add: dict_get_def map_of_repair_fields is_dict_default split: option.split)
  moreover have "dict_get report k_error_analysis JNull =
                 dict_get (repair_fields d) k_error_analysis JNull"
    using m required_keys_distinct by (auto simp: dict_get_def)
  ultimately show ?thesis using m present by auto
qed

lemma parse_backfill:
  assumes p: "parse_comparison_response B text = Inr report"
    and d: "json_loads B (strip (strip_fences text)) = Some (JObj d)"
  shows "(\<forall>(k, dflt) \<in> set required_fields. map_of d k = None \<longrightarrow> map_of report k = Some dflt) \<and>
         (\<forall>v. map_of d k_error_analysis = Some v \<and> \<not> is_dict v \<longrightarrow>
              map_of report k_error_analysis = Some default_error_analysis)"
proof -
  from parse_scores [OF p] d obtain a s where
    a: "py_float B (dict_get (repair_fields d) k_accuracy_score (JInt 0)) = Inr a"
    and s: "py_float B (dict_get (repair_fields d) k_semantic_similarity (JInt 0)) = Inr s"
    and m: "\<forall>k. map_of report k =
              (if k = k_semantic_similarity then Some (JFloat (clamp_score s))
               else if k = k_accuracy_score then Some (JFloat (clamp_score a))
               else map_of (repair_fields d) k)"
    by auto
  have acc: "map_of d k_accuracy_score = None \<Longrightarrow> clamp_score a = Finite 0"
    using a by (auto simp: dict_get_repair_score clamp_score_Finite)
  have sem: "map_of d k_semantic_similarity = None \<Longrightarrow> clamp_score s = Finite 0"
    using s by (auto simp: dict_get_repair_score clamp_score_Finite)
  have "map_of d k = None \<longrightarrow> map_of report k = Some dflt"
    if "(k, dflt) \<in> set required_fields" for k dflt
    using that m acc sem required_keys_distinct
    by (auto simp: required_fields_def map_of_repair_fields map_of_required_fields)
  moreover
  have "map_of report k_error_analysis = Some default_error_analysis"
    if "map_of d k_error_analysis = Some v \<and> \<not> is_dict v" for v
    using that m required_keys_distinct by (auto simp: map_of_repair_fields)
  ultimately show ?thesis by blast
qed

lemma parse_succeeds:
  assumes d: "json_loads B (strip (strip_fences text)) = Some (JObj d)"
    and c: "\<forall>k v. (k = k_accuracy_score \<or> k = k_semantic_similarity) \<and> map_of d k = Some v \<longrightarrow>
              (\<exists>f. py_float B v = Inr f)"
  shows "\<exists>report. parse_comparison_response B text = Inr report"
proof -
  have "\<exists>f. py_float B (dict_get (repair_fields d) k (JInt 0)) = Inr f"
    if "k = k_accuracy_score \<or> k = k_semantic_similarity" for k
    using that c by (cases "map_of d k") (auto simp: dict_get_repair_score)
  then obtain a s where
    "py_float B (dict_get (repair_fields d) k_accuracy_score (JInt 0)) = Inr a"
    "py_float B (dict_get (repair_fields d) k_semantic_similarity (JInt 0)) = Inr s"
    by blast
  from clamp_scores_ok [OF this] show ?thesis
    by (simp add: parse_object [OF d])
qed

text \<open>
  C4. Every report the parser returns has the seven required fields, and its
  \<open>error_analysis\<close> is a mapping. A required field that the payload lacks has its
  default in the report (a payload without \<open>key_differences\<close> gives
  \<open>key_differences = []\<close>), and an \<open>error_analysis\<close> of the payload that is no mapping
  is replaced by the default mapping. The parser does return a report for a payload
  that is a JSON object whose scores, where present, convert to a float: a missing field
  is no error.
\<close>

theorem required_fields_backfilled:
  "(parse_comparison_response B text = Inr report \<longrightarrow>
      (\<forall>k \<in> {k_summary, k_accuracy_score, k_semantic_similarity, k_error_analysis,
              k_key_differences, k_suggestions, k_reasoning}. map_of report k \<noteq> None) \<and>
      is_dict (dict_get report k_error_analysis JNull)) \<and>
   (parse_comparison_response B text = Inr report \<and>
    json_loads B (strip (strip_fences text)) = Some (JObj d) \<longrightarrow>
      (\<forall>(k, dflt) \<in> set required_fields. map_of d k = None \<longrightarrow> map_of report k = Some dflt) \<and>
      (map_of d k_key_differences = None \<longrightarrow> map_of report k_key_differences = Some (JArr [])) \<and>
      (\<forall>v. map_of d k_error_analysis = Some v \<and> \<not> is_dict v \<longrightarrow>
           map_of report k_error_analysis = Some default_error_analysis)) \<and>
   (json_loads B (strip (strip_fences text)) = Some (JObj d) \<and>
    (\<forall>k v. (k = k_accuracy_score \<or> k = k_semantic_similarity) \<and> map_of d k = Some v \<longrightarrow>
           (\<exists>f. py_float B v = Inr f)) \<longrightarrow>
      (\<exists>r. parse_comparison_response B text = Inr r))"
  (is "?present \<and> ?backfill \<and> ?succeeds")
proof -
  have 1: ?present
    using parse_fields_present [of B "text" report] by blast
  have 2: ?backfill
  proof
    assume h: "parse_comparison_response B text = Inr report \<and>
      json_loads B (strip (strip_fences text)) = Some (JObj d)"
    then have b: "(\<forall>(k, dflt) \<in> set required_fields. map_of d k = None \<longrightarrow>
                    map_of report k = Some dflt) \<and>
           (\<forall>v. map_of d k_error_analysis = Some v \<and> \<not> is_dict v \<longrightarrow>
                map_of report k_error_analysis = Some default_error_analysis)"
      using parse_backfill [of B "text" report d] by blast
    have "(k_key_differences, JArr []) \<in> set required_fields"
      by (simp add: required_fields_def)
    with b have "map_of d k_key_differences = None \<longrightarrow>
        map_of report k_key_differences = Some (JArr [])"
      by blast
    with b show "(\<forall>(k, dflt) \<in> set required_fields. map_of d k = None \<longrightarrow>
                    map_of report k = Some dflt) \<and>
      (map_of d k_key_differences = None \<longrightarrow> map_of report k_key_differences = Some (JArr [])) \<and>
      (\<forall>v. map_of d k_error_analysis = Some v \<and> \<not> is_dict v \<longrightarrow>
           map_of report k_error_analysis = Some default_error_analysis)"
      by (intro conjI) (rule conjunct1 [OF b], assumption, rule conjunct2 [OF b])
  qed
  have 3: ?succeeds
    using parse_succeeds [of B "text" d] by blast
  show ?thesis by (rule conjI [OF 1 conjI [OF 2 3]])
qed

lemma payload_analysis_loads:
  "json_loads example_builtins (strip (strip_fences payload_analysis)) =
     Some (JObj [(k_error_analysis, JStr (ascii ''none'')),
                 (k_accuracy_score, JFloat (Finite (161 / 2)))])"
proof -
  have "strip (strip_fences payload_analysis) = payload_analysis"
    by (simp add: strip_fences_def strip_def lstrip_def rstrip_def py_isspace_def
        startswith_def endswith_def payload_analysis_def ascii_def)
  moreover have "payload_analysis \<noteq> payload_scores"
    by (simp add: payload_analysis_def payload_scores_def ascii_def)
  ultimately show ?thesis by (simp add: example_builtins_def)
qed

theorem required_fields_backfilled_witness:
  "\<exists>report. parse_comparison_response example_builtins payload_analysis = Inr report \<and>
     map_of report k_accuracy_score = Some (JFloat (Finite (161 / 2))) \<and>
     map_of report k_semantic_similarity = Some (JFloat (Finite 0)) \<and>
     map_of report k_error_analysis = Some default_error_analysis \<and>
     map_of report k_key_differences = Some (JArr []) \<and>
     map_of report k_summary = Some (JStr default_summary) \<and>
     map_of report k_suggestions \<noteq> None \<and> map_of report k_reasoning \<noteq> None"
proof -
  let ?d = "[(k_error_analysis, JStr (ascii ''none'')),
             (k_accuracy_score, JFloat (Finite (161 / 2)))]"
  note loads = payload_analysis_loads
  have lookups: "map_of ?d k_accuracy_score = Some (JFloat (Finite (161 / 2)))"
    "map_of ?d k_semantic_similarity = None" "map_of ?d k_key_differences = None"
    "map_of ?d k_summary = None" "map_of ?d k_error_analysis = Some (JStr (ascii ''none''))"
    using required_keys_distinct by auto
  have conv: "\<forall>k v. (k = k_accuracy_score \<or> k = k_semantic_similarity) \<and> map_of ?d k = Some v \<longrightarrow>
           (\<exists>f. py_float example_builtins v = Inr f)"
    using lookups by auto
  have "\<exists>r. parse_comparison_response example_builtins payload_analysis = Inr r"
    using required_fields_backfilled [of example_builtins payload_analysis "[]" ?d,
        THEN conjunct2, THEN conjunct2] conjI [OF loads conv]
    by (rule mp)
  then obtain report where
    r: "parse_comparison_response example_builtins payload_analysis = Inr report"
    by blast
  note inst = required_fields_backfilled [of example_builtins payload_analysis report ?d]
  have present: "\<forall>k \<in> {k_summary, k_accuracy_score, k_semantic_similarity, k_error_analysis,
              k_key_differences, k_suggestions, k_reasoning}. map_of report k \<noteq> None"
    using inst [THEN conjunct1] r by simp
  have backfill:
    "(\<forall>(k, dflt) \<in> set required_fields. map_of ?d k = None \<longrightarrow> map_of report k = Some dflt) \<and>
     (map_of ?d k_key_differences = None \<longrightarrow> map_of report k_key_differences = Some (JArr [])) \<and>
     (\<forall>v. map_of ?d k_error_analysis = Some v \<and> \<not> is_dict v \<longrightarrow>
          map_of report k_error_analysis = Some default_error_analysis)"
    using inst [THEN conjunct2, THEN conjunct1] conjI [OF r loads]
    by (rule mp)
  have fields: "(k_semantic_similarity, JFloat (Finite 0)) \<in> set required_fields"
    "(k_summary, JStr default_summary) \<in> set required_fields"
    by (simp_all add: required_fields_def)
  have sem: "map_of report k_semantic_similarity = Some (JFloat (Finite 0))"
    using bspec [OF backfill [THEN conjunct1] fields(1)] lookups(2) by simp
  have summ: "map_of report k_summary = Some (JStr default_summary)"
    using bspec [OF backfill [THEN conjunct1] fields(2)] lookups(4) by simp
  have keyd: "map_of report k_key_differences = Some (JArr [])"
    using backfill [THEN conjunct2, THEN conjunct1] lookups(3) by simp
  have ea: "map_of report k_error_analysis = Some default_error_analysis"
    using backfill [THEN conjunct2, THEN conjunct2, rule_format, of "JStr (ascii ''none'')"]
      lookups(5) by simp
  have more: "map_of report k_suggestions \<noteq> None" "map_of report k_reasoning \<noteq> None"
    using present by simp_all
  have acc: "map_of report k_accuracy_score = Some (JFloat (Finite (161 / 2)))"
    using parse_score_clamped [OF r loads _ lookups(1), of "Finite (161 / 2)"]
    by (simp add: clamp_score_Finite)
  from r acc sem ea keyd summ more show ?thesis by blast
qed

section \<open>The orchestrator\<close>

lemma failure_comparison_nonempty: "failure_comparison msg \<noteq> []"
  by (simp add: failure_comparison_def)

text \<open>
  A failure of the transcription step that the \<open>except\<close> clause of line 103 handles
  ends in the placeholder result, and the chat backend is not called.
\<close>

lemma stt_failure_handled:
  assumes "transcribe_audio (lib W) (stt W) p = (Inl e, n)"
    and "caught_by [RuntimeError, ValueError] e"
  shows "evaluate_single_file W p reference =
     (Inr \<lparr> evaluation_id = new_uuid (time W), timestamp = now_iso (time W),
            audio_file = p, ref_text = reference,
            transcription = Some \<lparr> file_path = p, file_name = path_name (lib W) p,
              transcript = None, t_confidence = 0, t_success = False,
              t_error = Some (str_exc e) \<rparr>,
            comparison_report = failure_comparison (str_exc e),
            metrics = Some \<lparr> m_accuracy_score = JFloat (Finite 0),
              m_semantic_similarity = JFloat (Finite 0), accuracy_level = level_failed,
              m_confidence = 0, processing_status = ascii ''failed'' \<rparr>,
            processing_time = elapsed (time W), success = False,
            error_message = Some (str_exc e) \<rparr>, (n, 0))"
  using assms
  by (simp add: evaluate_single_file_def evaluate_try_def evaluate_handler_def
      new_evaluation_result_def failure_comparison_nonempty)

text \<open>A failure of the transcription step of any other class leaves the orchestrator.\<close>

lemma stt_failure_escapes:
  assumes "transcribe_audio (lib W) (stt W) p = (Inl e, n)"
    and "\<not> caught_by [RuntimeError, ValueError] e"
  shows "evaluate_single_file W p reference = (Inl e, (n, 0))"
  using assms
  by (simp add: evaluate_single_file_def evaluate_try_def)

lemma not_found_not_caught:
  "\<not> caught_by [RuntimeError, ValueError] (Exc FileNotFoundError m)"
  by (simp add: caught_by_def)

lemma missing_file_transcribe:
  assumes "stt_svc = Some S" "p \<noteq> []" "\<not> path_exists (client S) p"
  shows "transcribe_audio B stt_svc p =
           (Inl (Exc FileNotFoundError (msg_not_found_prefix @ path_str B p)), 0)"
  using assms
  by (simp add: transcribe_audio_def service_transcribe_audio_def client_transcribe_audio_def
      not_found_not_caught)

lemma missing_file_escapes:
  assumes "stt W = Some S" "p \<noteq> []" "\<not> path_exists (client S) p"
  shows "evaluate_single_file W p reference =
           (Inl (Exc FileNotFoundError (msg_not_found_prefix @ path_str (lib W) p)), (0, 0))"
  using missing_file_transcribe [OF assms, of "lib W"]
  by (simp add: stt_failure_escapes not_found_not_caught)

lemma too_small_transcribe:
  assumes "stt_svc = Some S" "p \<noteq> []" "path_exists (client S) p"
    "path_size (client S) p < 1024"
  shows "transcribe_audio B stt_svc p =
           (Inl (Exc RuntimeError (msg_stt_failed_prefix @ msg_too_small)), 0)"
  using assms
  by (simp add: transcribe_audio_def service_transcribe_audio_def client_transcribe_audio_def
      max_size_def Let_def caught_by_def)

text \<open>
  C1. \<open>evaluate_single_file\<close> is to return a result for every audio path and reference
  text. On the path of a file that does not exist it raises instead: the
  \<open>FileNotFoundError\<close> of line 192 of stt.py is neither a \<open>RuntimeError\<close> nor a
  \<open>ValueError\<close>, so that the handlers of \<open>STTService.transcribe_audio\<close> and of
  \<open>evaluate_single_file\<close> both let it pass.
\<close>

theorem evaluate_raises_on_missing_file:
  "evaluate_single_file example_services (ascii ''missing.wav'') (ascii ''hello world'') =
     (Inl (Exc FileNotFoundError (msg_not_found_prefix @ ascii ''missing.wav'')), (0, 0))"
proof -
  have "stt example_services = Some example_stt" "ascii ''missing.wav'' \<noteq> []"
    "\<not> path_exists (client example_stt) (ascii ''missing.wav'')"
    by (simp_all add: example_services_def example_stt_def example_client_def ascii_def)
  from missing_file_escapes [OF this] show ?thesis
    by (simp add: example_services_def example_builtins_def)
qed

text \<open>
  C5. When the transcription step fails, \<open>evaluate_single_file\<close> is to return the
  placeholder result without calling the comparison backend. It does so for a file that
  is too small. For a file that does not exist the transcription step fails as well, but
  no result is returned: the exception leaves \<open>evaluate_single_file\<close>.
\<close>

theorem stt_failure_without_result:
  "(case evaluate_single_file example_services (ascii ''tiny.wav'') (ascii ''hello world'') of
      (Inr result, calls) \<Rightarrow>
        \<not> success result \<and>
        error_message result = Some (msg_stt_failed_prefix @ msg_too_small) \<and>
        map_option transcript (transcription result) = Some None \<and>
        map_option t_error (transcription result) =
          Some (Some (msg_stt_failed_prefix @ msg_too_small)) \<and>
        comparison_report result =
          failure_comparison (msg_stt_failed_prefix @ msg_too_small) \<and>
        calls = (0, 0)
    | (Inl e, calls) \<Rightarrow> False) \<and>
   fst (transcribe_audio example_builtins (Some example_stt) (ascii ''missing.wav'')) =
     Inl (Exc FileNotFoundError (msg_not_found_prefix @ ascii ''missing.wav'')) \<and>
   fst (evaluate_single_file example_services (ascii ''missing.wav'') (ascii ''hello world'')) =
     Inl (Exc FileNotFoundError (msg_not_found_prefix @ ascii ''missing.wav''))"
proof -
  have stt: "stt example_services = Some example_stt"
    by (simp add: example_services_def)
  have tiny: "ascii ''tiny.wav'' \<noteq> []"
    "path_exists (client example_stt) (ascii ''tiny.wav'')"
    "path_size (client example_stt) (ascii ''tiny.wav'') < 1024"
    by (simp_all add: example_stt_def example_client_def ascii_def)
  have missing: "ascii ''missing.wav'' \<noteq> []"
    "\<not> path_exists (client example_stt) (ascii ''missing.wav'')"
    by (simp_all add: example_stt_def example_client_def ascii_def)
  have caught: "caught_by [RuntimeError, ValueError]
                  (Exc RuntimeError (msg_stt_failed_prefix @ msg_too_small))"
    by (simp add: caught_by_def)
  have "transcribe_audio (lib example_services) (stt example_services) (ascii ''tiny.wav'') =
          (Inl (Exc RuntimeError (msg_stt_failed_prefix @ msg_too_small)), 0)"
    using too_small_transcribe [OF stt tiny] by simp
  from stt_failure_handled [OF this caught, of "ascii ''hello world''"]
  have 1: "(case evaluate_single_file example_services (ascii ''tiny.wav'')
                   (ascii ''hello world'') of
      (Inr result, calls) \<Rightarrow>
        \<not> success result \<and>
        error_message result = Some (msg_stt_failed_prefix @ msg_too_small) \<and>
        map_option transcript (transcription result) = Some None \<and>
        map_option t_error (transcription result) =
          Some (Some (msg_stt_failed_prefix @ msg_too_small)) \<and>
        comparison_report result =
          failure_comparison (msg_stt_failed_prefix @ msg_too_small) \<and>
        calls = (0, 0)
    | (Inl e, calls) \<Rightarrow> False)"
    by simp
  have 2: "fst (transcribe_audio example_builtins (Some example_stt) (ascii ''missing.wav'')) =
     Inl (Exc FileNotFoundError (msg_not_found_prefix @ ascii ''missing.wav''))"
    using missing_file_transcribe [OF refl missing, of example_builtins]
    by (simp add: example_builtins_def)
  have 3: "fst (evaluate_single_file example_services (ascii ''missing.wav'')
                  (ascii ''hello world'')) =
     Inl (Exc FileNotFoundError (msg_not_found_prefix @ ascii ''missing.wav''))"
    using missing_file_escapes [OF stt missing, of "ascii ''hello world''"]
    by (simp add: example_services_def example_builtins_def)
  from 1 2 3 show ?thesis by (intro conjI)
qed

section \<open>The recording lifecycle\<close>



lemma is_recording_cleanup [simp]: "is_recording (cleanup_audio dev r) = is_recording r"
  by (simp add: cleanup_audio_def Let_def)













section \<open>Text normalization\<close>

lemma normalize_text_default:
  "s \<noteq> [] \<Longrightarrow> normalize_text lower default_config s =
     strip (lower (remove_punctuation (replace_fullwidth (collapse_whitespace (strip s)))))"
  by (simp add: normalize_text_def default_config_def)

lemma first_pass_steps:
  "strip [97, 32, 45, 32, 98] = [97, 32, 45, 32, 98]"
  "collapse_whitespace [97, 32, 45, 32, 98] = [97, 32, 45, 32, 98]"
  "replace_fullwidth [97, 32, 45, 32, 98] = [97, 32, 45, 32, 98]"
  "remove_punctuation [97, 32, 45, 32, 98] = [97, 32, 32, 98]"
  "ascii_lower [97, 32, 32, 98] = [97, 32, 32, 98]"
  "strip [97, 32, 32, 98] = [97, 32, 32, 98]"
  by (simp_all add: strip_def lstrip_def rstrip_def py_isspace_def replace_fullwidth_def
      replace_char_def remove_punctuation_def punctuation_def ascii_lower_def)

lemma second_pass_steps:
  "collapse_whitespace [97, 32, 32, 98] = [97, 32, 98]"
  "replace_fullwidth [97, 32, 98] = [97, 32, 98]"
  "remove_punctuation [97, 32, 98] = [97, 32, 98]"
  "ascii_lower [97, 32, 98] = [97, 32, 98]"
  "strip [97, 32, 98] = [97, 32, 98]"
  by (simp_all add: strip_def lstrip_def rstrip_def py_isspace_def replace_fullwidth_def
      replace_char_def remove_punctuation_def punctuation_def ascii_lower_def)

lemma first_pass:
  "normalize_text ascii_lower default_config [97, 32, 45, 32, 98] = [97, 32, 32, 98]"
  by (subst normalize_text_default) (simp_all only: first_pass_steps list.distinct
      not_False_eq_True)

lemma second_pass:
  "normalize_text ascii_lower default_config [97, 32, 32, 98] = [97, 32, 98]"
  by (subst normalize_text_default) (simp_all only: first_pass_steps second_pass_steps
      list.distinct not_False_eq_True)

lemma example_strings:
  "ascii ''a - b'' = [97, 32, 45, 32, 98]" "ascii ''a  b'' = [97, 32, 32, 98]"
  "ascii ''a b'' = [97, 32, 98]"
  by (simp_all add: ascii_def)

text \<open>
  C9, as stated, fails with the default toggles: the hyphen of \<open>a - b\<close> is removed
  after the whitespace has been collapsed, which leaves two spaces that only a second
  pass collapses.
\<close>

theorem normalize_not_idempotent_counterexample:
  "normalize_text ascii_lower default_config (ascii ''a - b'') = ascii ''a  b'' \<and>
   normalize_text ascii_lower default_config
     (normalize_text ascii_lower default_config (ascii ''a - b'')) = ascii ''a b'' \<and>
   normalize_text ascii_lower default_config
     (normalize_text ascii_lower default_config (ascii ''a - b'')) \<noteq>
   normalize_text ascii_lower default_config (ascii ''a - b'')"
  by (simp only: example_strings first_pass second_pass) simp

subsection \<open>Stripping\<close>

lemma rstrip_Nil [simp]: "rstrip [] = []"
  by (simp add: rstrip_def)

lemma rstrip_eq_Nil: "rstrip x = [] \<longleftrightarrow> (\<forall>c \<in> set x. py_isspace c)"
  by (simp add: rstrip_def dropWhile_eq_Nil_conv)

lemma rstrip_Cons:
  "rstrip (c # cs) = (if rstrip cs = [] \<and> py_isspace c then [] else c # rstrip cs)"
  by (auto simp: rstrip_def dropWhile_append dropWhile_eq_Nil_conv)

lemma lstrip_rstrip: "lstrip (rstrip x) = rstrip (lstrip x)"
  by (induction x) (auto simp: rstrip_Cons lstrip_def)

lemma lstrip_idem: "lstrip (lstrip x) = lstrip x"
  by (simp add: lstrip_def dropWhile_idem)

lemma rstrip_idem: "rstrip (rstrip x) = rstrip x"
  by (simp add: rstrip_def dropWhile_idem)

lemma strip_idem: "strip (strip x) = strip x"
  by (simp add: strip_def lstrip_rstrip lstrip_idem rstrip_idem)

lemma set_lstrip: "set (lstrip x) \<subseteq> set x"
  by (auto simp: lstrip_def dest: set_dropWhileD)

lemma set_rstrip: "set (rstrip x) \<subseteq> set x"
  by (auto simp: rstrip_def dest: set_dropWhileD)

lemma set_strip: "set (strip x) \<subseteq> set x"
  using set_lstrip set_rstrip by (fastforce simp: strip_def)

lemma strip_Nil [simp]: "strip [] = []"
  by (simp add: strip_def lstrip_def)
subsection \<open>Collapsing whitespace\<close>

lemma collapse_eq_Nil [simp]: "collapse_whitespace x = [] \<longleftrightarrow> x = []"
  by (cases x) simp_all

lemma lstrip_Nil_or_hd: "lstrip x = [] \<or> \<not> py_isspace (hd (lstrip x))"
  using hd_dropWhile [of py_isspace x] by (auto simp: lstrip_def)

lemma lstrip_collapse_fixed:
  "x = [] \<or> \<not> py_isspace (hd x) \<Longrightarrow> lstrip (collapse_whitespace x) = collapse_whitespace x"
  by (cases x) (auto simp: lstrip_def)

lemma collapse_lstrip: "collapse_whitespace (lstrip x) = lstrip (collapse_whitespace x)"
proof (cases x)
  case Nil
  then show ?thesis by (simp add: lstrip_def)
next
  case (Cons c cs)
  show ?thesis
  proof (cases "py_isspace c")
    case True
    have "lstrip (collapse_whitespace (lstrip cs)) = collapse_whitespace (lstrip cs)"
      using lstrip_Nil_or_hd [of cs] by (rule lstrip_collapse_fixed)
    with True Cons show ?thesis by (simp add: lstrip_def py_isspace_def)
  next
    case False
    with Cons show ?thesis by (simp add: lstrip_def)
  qed
qed

lemma collapse_idem: "collapse_whitespace (collapse_whitespace x) = collapse_whitespace x"
proof (induction x rule: collapse_whitespace.induct)
  case 1
  then show ?case by simp
next
  case (2 c cs)
  show ?case
  proof (cases "py_isspace c")
    case True
    have sp: "py_isspace 32" by (simp add: py_isspace_def)
    have "dropWhile py_isspace (collapse_whitespace (dropWhile py_isspace cs)) =
          collapse_whitespace (dropWhile py_isspace cs)"
      using lstrip_collapse_fixed [of "lstrip cs"] lstrip_Nil_or_hd [of cs]
      by (simp add: lstrip_def)
    with True 2 sp show ?thesis by simp
  next
    case False
    with 2 show ?thesis by simp
  qed
qed

lemma all_space_dropWhile:
  "(\<forall>c \<in> set (dropWhile py_isspace x). py_isspace c) \<longleftrightarrow> (\<forall>c \<in> set x. py_isspace c)"
  by (induction x) auto

lemma all_space_collapse:
  "(\<forall>c \<in> set (collapse_whitespace x). py_isspace c) \<longleftrightarrow> (\<forall>c \<in> set x. py_isspace c)"
proof (induction x rule: collapse_whitespace.induct)
  case 1
  then show ?case by simp
next
  case (2 c cs)
  have sp: "py_isspace 32" by (simp add: py_isspace_def)
  show ?case
  proof (cases "py_isspace c")
    case True
    with 2 sp show ?thesis by (simp add: all_space_dropWhile)
  next
    case False
    then show ?thesis by simp
  qed
qed

lemma collapse_rstrip: "collapse_whitespace (rstrip x) = rstrip (collapse_whitespace x)"
proof (induction x rule: collapse_whitespace.induct)
  case 1
  then show ?case by simp
next
  case (2 c cs)
  have sp: "py_isspace 32" by (simp add: py_isspace_def)
  show ?case
  proof (cases "py_isspace c")
    case True
    note IH = 2(1) [OF True]
    show ?thesis
    proof (cases "\<forall>d \<in> set cs. py_isspace d")
      case all: True
      with True sp show ?thesis
        by (simp add: rstrip_Cons rstrip_eq_Nil all_space_collapse all_space_dropWhile)
    next
      case some: False
      have l: "dropWhile py_isspace (rstrip cs) = rstrip (dropWhile py_isspace cs)"
        using lstrip_rstrip [of cs] by (simp add: lstrip_def)
      have "rstrip (collapse_whitespace (dropWhile py_isspace cs)) \<noteq> []"
        using some by (simp add: rstrip_eq_Nil all_space_collapse all_space_dropWhile)
      with True some IH l sp show ?thesis by (simp add: rstrip_Cons rstrip_eq_Nil)
    qed
  next
    case False
    with 2(2) show ?thesis by (simp add: rstrip_Cons)
  qed
qed

lemma collapse_strip: "collapse_whitespace (strip x) = strip (collapse_whitespace x)"
  by (simp add: strip_def collapse_lstrip collapse_rstrip)

lemma set_collapse: "set (collapse_whitespace x) \<subseteq> insert 32 (set x)"
proof (induction x rule: collapse_whitespace.induct)
  case 1
  then show ?case by simp
next
  case (2 c cs)
  then show ?case using set_dropWhileD [of _ py_isspace cs] by (cases "py_isspace c") auto
qed
subsection \<open>Character maps that keep whitespace\<close>

lemma collapse_map:
  assumes "\<And>c. py_isspace (g c) = py_isspace c" "g 32 = 32"
  shows "collapse_whitespace (map g x) = map g (collapse_whitespace x)"
proof (induction x rule: collapse_whitespace.induct)
  case 1
  then show ?case by simp
next
  case (2 c cs)
  have comp: "py_isspace \<circ> g = py_isspace"
    using assms(1) by (simp add: fun_eq_iff)
  show ?case
  proof (cases "py_isspace c")
    case True
    with 2 assms show ?thesis by (simp add: dropWhile_map comp)
  next
    case False
    with 2 assms show ?thesis by simp
  qed
qed

lemma strip_map:
  assumes "\<And>c. py_isspace (g c) = py_isspace c"
  shows "strip (map g x) = map g (strip x)"
proof -
  have comp: "py_isspace \<circ> g = py_isspace"
    using assms by (simp add: fun_eq_iff)
  show ?thesis
    by (simp add: strip_def lstrip_def rstrip_def dropWhile_map rev_map comp)
qed

lemma collapse_replace_char:
  assumes "\<not> py_isspace a" "\<not> py_isspace b"
  shows "collapse_whitespace (replace_char a b x) = replace_char a b (collapse_whitespace x)"
  unfolding replace_char_def
proof (rule collapse_map)
  show "py_isspace (if c = a then b else c) = py_isspace c" for c
    using assms by simp
  show "(if 32 = a then b else 32) = 32"
    using assms by (auto simp: py_isspace_def)
qed

lemma marks_not_space:
  "\<not> py_isspace 65292" "\<not> py_isspace 12290" "\<not> py_isspace 65311" "\<not> py_isspace 65281"
  "\<not> py_isspace 65306" "\<not> py_isspace 65307" "\<not> py_isspace 12300" "\<not> py_isspace 12301"
  "\<not> py_isspace 12302" "\<not> py_isspace 12303"
  "\<not> py_isspace 44" "\<not> py_isspace 46" "\<not> py_isspace 63" "\<not> py_isspace 33"
  "\<not> py_isspace 58" "\<not> py_isspace 59" "\<not> py_isspace 34" "\<not> py_isspace 39"
  by (simp_all add: py_isspace_def)

lemma collapse_replace_fullwidth:
  "collapse_whitespace (replace_fullwidth x) = replace_fullwidth (collapse_whitespace x)"
  by (simp add: replace_fullwidth_def Let_def collapse_replace_char marks_not_space)

lemma replace_char_id: "a \<notin> set x \<Longrightarrow> replace_char a b x = x"
  by (induction x) (auto simp: replace_char_def)

lemma replace_char_absent: "a \<noteq> b \<Longrightarrow> a \<notin> set (replace_char a b x)"
  by (auto simp: replace_char_def)

lemma replace_char_keeps_absent: "m \<notin> set x \<Longrightarrow> m \<noteq> b \<Longrightarrow> m \<notin> set (replace_char a b x)"
  by (auto simp: replace_char_def)

lemma mark_replaced:
  assumes "m \<in> set fullwidth_marks"
  shows "m \<notin> set (replace_fullwidth x)"
proof -
  from assms consider "m = 65292" | "m = 12290" | "m = 65311" | "m = 65281" | "m = 65306"
    | "m = 65307" | "m = 12300" | "m = 12301" | "m = 12302" | "m = 12303"
    by (auto simp: fullwidth_marks_def)
  then show ?thesis
    by cases (simp_all add: replace_fullwidth_def Let_def replace_char_absent
        replace_char_keeps_absent)
qed

lemma replace_fullwidth_no_marks:
  "\<forall>c \<in> set (replace_fullwidth x). c \<notin> set fullwidth_marks"
  using mark_replaced by blast

lemma replace_fullwidth_id:
  assumes "\<forall>c \<in> set x. c \<notin> set fullwidth_marks"
  shows "replace_fullwidth x = x"
proof -
  have "m \<notin> set x" if "m \<in> set fullwidth_marks" for m
    using that assms by blast
  then have "65292 \<notin> set x" "12290 \<notin> set x" "65311 \<notin> set x" "65281 \<notin> set x"
    "65306 \<notin> set x" "65307 \<notin> set x" "12300 \<notin> set x" "12301 \<notin> set x"
    "12302 \<notin> set x" "12303 \<notin> set x"
    by (simp_all add: fullwidth_marks_def)
  then show ?thesis
    by (simp add: replace_fullwidth_def Let_def replace_char_id)
qed

lemma remove_punctuation_none: "\<forall>c \<in> set (remove_punctuation x). c \<notin> set punctuation"
  by (simp add: remove_punctuation_def)

lemma remove_punctuation_id:
  "\<forall>c \<in> set x. c \<notin> set punctuation \<Longrightarrow> remove_punctuation x = x"
  by (simp add: remove_punctuation_def)

lemma ball_strip: "\<forall>c \<in> set x. Q c \<Longrightarrow> \<forall>c \<in> set (strip x). Q c"
  using set_strip [of x] by blast

lemma ball_collapse: "\<forall>c \<in> set x. Q c \<Longrightarrow> Q 32 \<Longrightarrow> \<forall>c \<in> set (collapse_whitespace x). Q c"
  using set_collapse [of x] by blast

lemma ball_remove_punctuation:
  "\<forall>c \<in> set x. Q c \<Longrightarrow> \<forall>c \<in> set (remove_punctuation x). Q c"
  by (simp add: remove_punctuation_def)

lemma space_plain: "32 \<notin> set punctuation" "32 \<notin> set fullwidth_marks"
  by (simp_all add: punctuation_def fullwidth_marks_def)

subsection \<open>Lower-casing ASCII\<close>

lemma ascii_lower_space:
  "py_isspace (if 65 \<le> c \<and> c \<le> 90 then c + 32 else c) = py_isspace c"
proof (cases "65 \<le> c \<and> c \<le> 90")
  case True
  then have "\<not> py_isspace c" "\<not> py_isspace (c + 32)"
    unfolding py_isspace_def by simp_all
  with True show ?thesis by simp
next
  case False
  then show ?thesis by (simp only: if_False)
qed

lemma ascii_lower_upper:
  "65 \<le> c \<and> c \<le> 90 \<Longrightarrow> c + 32 \<notin> set punctuation"
  "65 \<le> c \<and> c \<le> 90 \<Longrightarrow> c + 32 \<notin> set fullwidth_marks"
  unfolding punctuation_def fullwidth_marks_def by simp_all

lemma ascii_lower_compatible: "lower_compatible ascii_lower"
  unfolding lower_compatible_def
proof (intro conjI allI impI)
  show "ascii_lower [] = []" by (simp add: ascii_lower_def)
next
  fix x show "ascii_lower (ascii_lower x) = ascii_lower x"
    by (simp add: ascii_lower_def)
next
  fix x show "ascii_lower (strip x) = strip (ascii_lower x)"
    unfolding ascii_lower_def by (rule strip_map [symmetric]) (rule ascii_lower_space)
next
  fix x show "ascii_lower (collapse_whitespace x) = collapse_whitespace (ascii_lower x)"
    unfolding ascii_lower_def
    by (rule collapse_map [symmetric]) (rule ascii_lower_space, simp)
next
  fix x assume "\<forall>c \<in> set x. c \<notin> set punctuation"
  then show "\<forall>c \<in> set (ascii_lower x). c \<notin> set punctuation"
    unfolding ascii_lower_def using ascii_lower_upper(1) by (simp add: image_iff) blast
next
  fix x assume "\<forall>c \<in> set x. c \<notin> set fullwidth_marks"
  then show "\<forall>c \<in> set (ascii_lower x). c \<notin> set fullwidth_marks"
    unfolding ascii_lower_def using ascii_lower_upper(2) by (simp add: image_iff) blast
qed
subsection \<open>One pass and two passes\<close>

lemma replace_fullwidth_Nil [simp]: "replace_fullwidth [] = []"
  by (simp add: replace_fullwidth_def replace_char_def)

lemma normalized_fixed:
  assumes "normalized lower cfg t"
  shows "normalize_text lower cfg t = t"
  using assms
  by (simp add: normalized_def normalize_text_def Let_def replace_fullwidth_id
      remove_punctuation_id)

lemma normalize_two_passes:
  assumes ok: "case_sensitive cfg \<or> lower_compatible lower"
  shows "normalize_text lower cfg (normalize_text lower cfg s) =
           (if text_normalization cfg \<and> punctuation_ignore cfg
            then collapse_whitespace (normalize_text lower cfg s)
            else normalize_text lower cfg s) \<and>
         normalize_text lower cfg (normalize_text lower cfg (normalize_text lower cfg s)) =
           normalize_text lower cfg (normalize_text lower cfg s)"
proof -
  define T where "T x = (if text_normalization cfg
                         then replace_fullwidth (collapse_whitespace x) else x)" for x
  define P where "P x = (if punctuation_ignore cfg then remove_punctuation x else x)" for x
  define L where "L x = (if case_sensitive cfg then x else lower x)" for x
  have L_Nil: "L [] = []"
    using ok by (auto simp: L_def lower_compatible_def)
  have L_idem: "L (L x) = L x" for x
    using ok by (auto simp: L_def lower_compatible_def)
  have L_strip: "L (strip x) = strip (L x)" for x
    using ok by (auto simp: L_def lower_compatible_def)
  have L_collapse: "L (collapse_whitespace x) = collapse_whitespace (L x)" for x
    using ok by (auto simp: L_def lower_compatible_def)
  have L_np: "\<forall>c \<in> set (L x). c \<notin> set punctuation"
    if "\<forall>c \<in> set x. c \<notin> set punctuation" for x
  proof (cases "case_sensitive cfg")
    case True
    with that show ?thesis by (simp add: L_def)
  next
    case False
    with ok have "lower_compatible lower" by simp
    with that False show ?thesis unfolding lower_compatible_def L_def by simp
  qed
  have L_nm: "\<forall>c \<in> set (L x). c \<notin> set fullwidth_marks"
    if "\<forall>c \<in> set x. c \<notin> set fullwidth_marks" for x
  proof (cases "case_sensitive cfg")
    case True
    with that show ?thesis by (simp add: L_def)
  next
    case False
    with ok have "lower_compatible lower" by simp
    with that False show ?thesis unfolding lower_compatible_def L_def by simp
  qed
  have n: "normalize_text lower cfg x = strip (L (P (T (strip x))))" for x
  proof (cases "x = []")
    case True
    then show ?thesis
      by (simp add: normalize_text_def T_def P_def L_Nil remove_punctuation_def)
  next
    case False
    then show ?thesis
      by (simp add: normalize_text_def T_def P_def L_def Let_def)
  qed
  have pass: "normalize_text lower cfg a =
                (if text_normalization cfg then collapse_whitespace a else a)"
    if a: "strip a = a" "text_normalization cfg \<Longrightarrow> \<forall>c \<in> set a. c \<notin> set fullwidth_marks"
      "punctuation_ignore cfg \<Longrightarrow> \<forall>c \<in> set a. c \<notin> set punctuation" "L a = a" for a
  proof (cases "text_normalization cfg")
    case True
    let ?b = "collapse_whitespace a"
    have "\<forall>c \<in> set ?b. c \<notin> set fullwidth_marks"
      using a(2) [OF True] space_plain(2) by (rule ball_collapse)
    then have 1: "T a = ?b"
      using True by (simp add: T_def replace_fullwidth_id)
    have "\<forall>c \<in> set ?b. c \<notin> set punctuation" if "punctuation_ignore cfg"
      using a(3) [OF that] space_plain(1) by (rule ball_collapse)
    then have 2: "P ?b = ?b"
      by (simp add: P_def remove_punctuation_id)
    have 3: "L ?b = ?b"
      by (simp add: L_collapse a(4))
    have 4: "strip ?b = ?b"
      using collapse_strip [of a] by (simp add: a(1))
    show ?thesis
      using True by (simp add: n a(1) 1 2 3 4)
  next
    case False
    then have 1: "T a = a" by (simp add: T_def)
    have 2: "P a = a"
      using a(3) by (simp add: P_def remove_punctuation_id)
    show ?thesis
      using False by (simp add: n a 1 2)
  qed
  define t where "t = normalize_text lower cfg s"
  define u where "u = P (T (strip s))"
  have t: "t = strip (L u)"
    by (simp add: t_def u_def n)
  have st: "strip t = t"
    by (simp add: t strip_idem)
  have u_nm: "\<forall>c \<in> set u. c \<notin> set fullwidth_marks" if "text_normalization cfg"
    using that replace_fullwidth_no_marks [of "collapse_whitespace (strip s)"]
    by (auto simp: u_def T_def P_def remove_punctuation_def)
  have nm: "\<forall>c \<in> set t. c \<notin> set fullwidth_marks" if "text_normalization cfg"
    unfolding t using L_nm [OF u_nm [OF that]] by (rule ball_strip)
  have u_np: "\<forall>c \<in> set u. c \<notin> set punctuation" if "punctuation_ignore cfg"
    using that by (simp add: u_def P_def remove_punctuation_none)
  have np: "\<forall>c \<in> set t. c \<notin> set punctuation" if "punctuation_ignore cfg"
    unfolding t using L_np [OF u_np [OF that]] by (rule ball_strip)
  have lt: "L t = t"
    by (simp add: t L_strip L_idem)
  have ct: "collapse_whitespace t = t" if "text_normalization cfg" "\<not> punctuation_ignore cfg"
  proof -
    have "u = replace_fullwidth (collapse_whitespace (strip s))"
      using that by (simp add: u_def T_def P_def)
    then have "collapse_whitespace u = u"
      by (simp add: collapse_replace_fullwidth collapse_idem)
    then show ?thesis
      by (simp add: t collapse_strip L_collapse [symmetric])
  qed
  have first: "normalize_text lower cfg t =
                 (if text_normalization cfg then collapse_whitespace t else t)"
    using st nm np lt by (rule pass)
  define a where "a = normalize_text lower cfg t"
  have a: "a = (if text_normalization cfg then collapse_whitespace t else t)"
    by (simp add: a_def first)
  have sa: "strip a = a"
    using collapse_strip [of t] by (simp add: a st)
  have nma: "\<forall>c \<in> set a. c \<notin> set fullwidth_marks" if "text_normalization cfg"
    using that ball_collapse [OF nm [OF that] space_plain(2)] by (simp add: a)
  have npa: "\<forall>c \<in> set a. c \<notin> set punctuation" if "punctuation_ignore cfg"
    using ball_collapse [OF np [OF that] space_plain(1)] np [OF that] by (simp add: a)
  have la: "L a = a"
    by (simp add: a L_collapse lt)
  have "normalize_text lower cfg a =
          (if text_normalization cfg then collapse_whitespace a else a)"
    using sa nma npa la by (rule pass)
  then have second: "normalize_text lower cfg a = a"
    by (simp add: a collapse_idem)
  have "a = (if text_normalization cfg \<and> punctuation_ignore cfg
             then collapse_whitespace t else t)"
    using ct by (auto simp: a)
  with second show ?thesis
    by (simp add: a_def t_def)
qed
text \<open>
  C9, amended. A string that is already normalized (no whitespace at either end and,
  per toggle, whitespace collapsed and no full-width mark, no punctuation, lower-cased)
  is left unchanged. A second pass over any string changes the result of the first pass
  only when \<open>text_normalization\<close> and \<open>punctuation_ignore\<close> are both on, and then only
  by collapsing the runs of spaces that removed punctuation left behind; with one of
  the two toggles off, normalization is idempotent. A third pass never changes the
  result of the second. Where the configuration is case-insensitive, this holds for a
  \<open>str.lower\<close> that is \<open>lower_compatible\<close>.
\<close>

theorem normalize_text_passes:
  "(normalized lower cfg t \<longrightarrow> normalize_text lower cfg t = t) \<and>
   (case_sensitive cfg \<or> lower_compatible lower \<longrightarrow>
      normalize_text lower cfg (normalize_text lower cfg s) =
        (if text_normalization cfg \<and> punctuation_ignore cfg
         then collapse_whitespace (normalize_text lower cfg s)
         else normalize_text lower cfg s) \<and>
      normalize_text lower cfg (normalize_text lower cfg (normalize_text lower cfg s)) =
        normalize_text lower cfg (normalize_text lower cfg s))"
  using normalized_fixed [of lower cfg t] normalize_two_passes [of cfg lower s]
  by blast

lemma example_normalized: "normalized ascii_lower default_config [97, 32, 98]"
proof -
  have "collapse_whitespace [97, 32, 98] = [97, 32, 98]"
    by (simp add: py_isspace_def)
  moreover have "\<forall>c \<in> set [97, 32, 98]. c \<notin> set fullwidth_marks"
    "\<forall>c \<in> set [97, 32, 98]. c \<notin> set punctuation"
    by (simp_all add: fullwidth_marks_def punctuation_def)
  ultimately show ?thesis
    unfolding normalized_def by (simp only: second_pass_steps simp_thms) blast
qed

theorem normalize_text_passes_witness:
  "normalize_text ascii_lower default_config (ascii ''a b'') = ascii ''a b'' \<and>
   normalize_text ascii_lower default_config
     (normalize_text ascii_lower default_config (ascii ''a - b'')) =
   collapse_whitespace (normalize_text ascii_lower default_config (ascii ''a - b'')) \<and>
   normalize_text ascii_lower (default_config \<lparr> punctuation_ignore := False \<rparr>)
     (normalize_text ascii_lower (default_config \<lparr> punctuation_ignore := False \<rparr>)
        (ascii ''a - b'')) =
   normalize_text ascii_lower (default_config \<lparr> punctuation_ignore := False \<rparr>)
     (ascii ''a - b'')"
proof -
  have toggles: "text_normalization default_config \<and> punctuation_ignore default_config"
    "\<not> punctuation_ignore (default_config \<lparr> punctuation_ignore := False \<rparr>)"
    by (simp_all add: default_config_def)
  have 1: "normalize_text ascii_lower default_config (ascii ''a b'') = ascii ''a b''"
    using normalize_text_passes [of ascii_lower default_config "ascii ''a b''"]
      example_normalized
    by (simp only: example_strings)
  have 2: "normalize_text ascii_lower default_config
     (normalize_text ascii_lower default_config (ascii ''a - b'')) =
   collapse_whitespace (normalize_text ascii_lower default_config (ascii ''a - b''))"
    using normalize_text_passes [of ascii_lower default_config _ "ascii ''a - b''"]
      ascii_lower_compatible toggles(1)
    by simp
  have 3: "normalize_text ascii_lower (default_config \<lparr> punctuation_ignore := False \<rparr>)
     (normalize_text ascii_lower (default_config \<lparr> punctuation_ignore := False \<rparr>)
        (ascii ''a - b'')) =
   normalize_text ascii_lower (default_config \<lparr> punctuation_ignore := False \<rparr>)
     (ascii ''a - b'')"
    using normalize_text_passes [of ascii_lower "default_config \<lparr> punctuation_ignore := False \<rparr>"
        _ "ascii ''a - b''"]
      ascii_lower_compatible toggles(2)
    by simp
  from 1 2 3 show ?thesis by (intro conjI)
qed

end
